theory Spec2Isabelle
  imports Complex_Main
begin

section \<open>Values that arrive in a request\<close>

text \<open>
  The handlers of \<^verbatim>\<open>backend/app.py\<close> read the JSON body of a request as a Python
  dictionary and convert its values with \<^verbatim>\<open>Decimal(...)\<close>, \<^verbatim>\<open>int(...)\<close> and
  \<^verbatim>\<open>datetime.fromisoformat(...)\<close>. A scalar JSON value is one of the constructors
  below; a JSON number without a fraction is a Python \<^verbatim>\<open>int\<close>, one with a fraction or
  an exponent a Python \<^verbatim>\<open>float\<close>: a finite binary fraction (a rational), or one of the
  three floats that are not finite. \<^verbatim>\<open>json.loads\<close> reads a literal beyond the range of a
  float, such as \<^verbatim>\<open>1e999\<close>, as infinity, and accepts \<^verbatim>\<open>Infinity\<close>, \<^verbatim>\<open>-Infinity\<close> and
  \<^verbatim>\<open>NaN\<close>. A finite \<^verbatim>\<open>Decimal\<close> is modelled by the rational it denotes (its exponent and
  trailing zeros are not kept); the conversion to \<^verbatim>\<open>float\<close> at serialisation is not
  modelled. A point in time is an integer count of clock ticks.
\<close>

type_synonym timestamp = int

datatype nonfinite = PosInf | NegInf | NaN

datatype json =
  JNull | JBool bool | JInt int | JFloat rat | JNonFinite nonfinite | JStr string

text \<open>
  The body of a request: the key/value pairs of the JSON object. Every handler treats a
  missing body and the empty object alike (\<^verbatim>\<open>if not data\<close>, \<^verbatim>\<open>get_json() or {}\<close>), so
  both are the empty list.
\<close>

type_synonym body = "(string \<times> json) list"

text \<open>\<^verbatim>\<open>data.get(k)\<close> (Python's \<^verbatim>\<open>None\<close> is \<open>JNull\<close>), \<^verbatim>\<open>data.get(k, v)\<close> and \<^verbatim>\<open>k in data\<close>.\<close>

definition get_default :: "body \<Rightarrow> string \<Rightarrow> json \<Rightarrow> json" where
  "get_default data k v = (case map_of data k of None \<Rightarrow> v | Some w \<Rightarrow> w)"

definition get :: "body \<Rightarrow> string \<Rightarrow> json" where
  "get data k = get_default data k JNull"

definition has_key :: "body \<Rightarrow> string \<Rightarrow> bool" where
  "has_key data k = (map_of data k \<noteq> None)"

text \<open>
  The exceptions that the handlers meet: those of the conversions, \<^verbatim>\<open>decimal.Overflow\<close>
  of Decimal arithmetic, and the \<^verbatim>\<open>DataError\<close> of a commit that the store refuses.
\<close>

datatype py_exc =
  InvalidOperation | TypeError | ValueError | OverflowError | DecimalOverflow | DataError

text \<open>
  \<^verbatim>\<open>Decimal(v)\<close> either raises, or returns a Decimal that is not finite (\<^verbatim>\<open>Infinity\<close>,
  \<^verbatim>\<open>-Infinity\<close>, a NaN), or returns a finite one. The first two are the left summand of
  its result: a handler says for each what it does.
\<close>

datatype no_number = Raises py_exc | Non_finite nonfinite

text \<open>
  What the three Python library functions return on a string is not part of the repository:
  the handlers are parameterised by it. \<open>None\<close> is the library's exception
  (\<^verbatim>\<open>InvalidOperation\<close> for \<^verbatim>\<open>Decimal\<close>, \<^verbatim>\<open>ValueError\<close> for the other two); a string may
  denote a Decimal that is not finite (\<^verbatim>\<open>'NaN'\<close>, \<^verbatim>\<open>'Infinity'\<close>).
\<close>

record pylib =
  Decimal_of_str :: "string \<Rightarrow> (nonfinite + rat) option"
  int_of_str :: "string \<Rightarrow> int option"
  fromisoformat :: "string \<Rightarrow> timestamp option"

text \<open>Python's truth value of a JSON scalar (\<^verbatim>\<open>if start_km_str\<close>).\<close>

fun truthy :: "json \<Rightarrow> bool" where
  "truthy JNull = False"
| "truthy (JBool b) = b"
| "truthy (JInt n) = (n \<noteq> 0)"
| "truthy (JFloat r) = (r \<noteq> 0)"
| "truthy (JNonFinite n) = True"
| "truthy (JStr s) = (s \<noteq> [])"

text \<open>
  \<^verbatim>\<open>Decimal(v)\<close>: \<^verbatim>\<open>None\<close> raises \<^verbatim>\<open>TypeError\<close>, a \<^verbatim>\<open>bool\<close> is an \<^verbatim>\<open>int\<close>, a float converts
  exactly, also when it is not finite.
\<close>

fun to_Decimal :: "pylib \<Rightarrow> json \<Rightarrow> no_number + rat" where
  "to_Decimal L JNull = Inl (Raises TypeError)"
| "to_Decimal L (JBool b) = Inr (if b then 1 else 0)"
| "to_Decimal L (JInt n) = Inr (of_int n)"
| "to_Decimal L (JFloat r) = Inr r"
| "to_Decimal L (JNonFinite n) = Inl (Non_finite n)"
| "to_Decimal L (JStr s) =
     (case Decimal_of_str L s of
        None \<Rightarrow> Inl (Raises InvalidOperation)
      | Some (Inl n) \<Rightarrow> Inl (Non_finite n)
      | Some (Inr d) \<Rightarrow> Inr d)"

text \<open>
  \<^verbatim>\<open>int(v)\<close>: a finite \<^verbatim>\<open>float\<close> is truncated towards zero; an infinite one raises
  \<^verbatim>\<open>OverflowError\<close>, a NaN \<^verbatim>\<open>ValueError\<close>.
\<close>

fun to_int :: "pylib \<Rightarrow> json \<Rightarrow> py_exc + int" where
  "to_int L JNull = Inl TypeError"
| "to_int L (JBool b) = Inr (if b then 1 else 0)"
| "to_int L (JInt n) = Inr n"
| "to_int L (JFloat r) = Inr (if 0 \<le> r then \<lfloor>r\<rfloor> else \<lceil>r\<rceil>)"
| "to_int L (JNonFinite PosInf) = Inl OverflowError"
| "to_int L (JNonFinite NegInf) = Inl OverflowError"
| "to_int L (JNonFinite NaN) = Inl ValueError"
| "to_int L (JStr s) =
     (case int_of_str L s of None \<Rightarrow> Inl ValueError | Some n \<Rightarrow> Inr n)"

text \<open>
  \<^verbatim>\<open>datetime.fromisoformat(data.get('timestamp', datetime.utcnow().isoformat()))\<close>:
  the default is the current time; a value that is not a string raises \<^verbatim>\<open>TypeError\<close>.
\<close>

definition parse_timestamp :: "pylib \<Rightarrow> timestamp \<Rightarrow> body \<Rightarrow> py_exc + timestamp" where
  "parse_timestamp L now data =
     (case map_of data ''timestamp'' of
        None \<Rightarrow> Inr now
      | Some (JStr s) \<Rightarrow>
          (case fromisoformat L s of None \<Rightarrow> Inl ValueError | Some t \<Rightarrow> Inr t)
      | Some _ \<Rightarrow> Inl TypeError)"

section \<open>The rows of \<^verbatim>\<open>backend/models.py\<close>\<close>

text \<open>
  \<^verbatim>\<open>CurrentCycle\<close>, \<^verbatim>\<open>Earning\<close>, \<^verbatim>\<open>Expense\<close> and \<^verbatim>\<open>Archive\<close>. The fields keep the
  column names; \<^verbatim>\<open>id\<close>, \<^verbatim>\<open>cycle_id\<close>, \<^verbatim>\<open>timestamp\<close>, \<^verbatim>\<open>category\<close> and \<^verbatim>\<open>amount\<close> carry the
  prefix of their table (\<open>c_\<close>, \<open>e_\<close>, \<open>x_\<close>, \<open>a_\<close>) because several tables share them.
\<close>

record cycle =
  c_id :: nat
  gas_cost :: rat
  start_km :: "int option"
  end_km :: "int option"
  fuel_price_per_liter :: "rat option"
  is_active :: bool
  start_time :: timestamp
  cumulative_earnings :: rat
  cumulative_race_count :: int
  current_period_earnings :: rat
  current_period_race_count :: int

record earning =
  e_id :: nat
  e_cycle_id :: nat
  e_timestamp :: timestamp
  e_amount :: rat

record expense =
  x_id :: nat
  x_cycle_id :: nat
  x_timestamp :: timestamp
  x_category :: json
  x_amount :: rat

text \<open>
  The JSON document of an archive has two shapes, told apart by \<^verbatim>\<open>archiveType\<close>:
  \<^verbatim>\<open>"Ciclo Completo"\<close> (written by \<^verbatim>\<open>finalize_cycle\<close>) and \<^verbatim>\<open>"Periodo Parcial"\<close>
  (written by \<^verbatim>\<open>archive_period\<close>). The two summaries that the code formats as strings
  (\<^verbatim>\<open>"N/A"\<close> or two decimals) are kept as optional numbers.
\<close>

record full_payload =
  archiveDate :: timestamp
  cycleEarnings :: rat
  gasCost :: rat
  expensesList :: "expense list"
  cycleRaceCount :: int
  startKM :: "int option"
  endKM :: "int option"
  fuelPricePerLiter :: "rat option"
  f_note :: json
  summary_totalOtherExpenses :: rat
  summary_profit :: rat
  summary_kmDriven :: int
  summary_kmPerLiter :: "rat option"
  summary_costPerKm :: "rat option"
  periodEndDate :: timestamp
  earningsDetails :: "earning list"

record partial_payload =
  p_archiveDate :: timestamp
  periodEarnings :: rat
  periodRaceCount :: int
  p_periodEndDate :: timestamp
  p_earningsDetails :: "earning list"
  p_note :: json
  gasCostSnapshot :: rat
  cycleProfitSnapshot :: rat

datatype archive_data = Ciclo_Completo full_payload | Periodo_Parcial partial_payload




record archive =
  a_id :: nat
  archive_data :: archive_data
  archive_date :: timestamp

text \<open>
  \<^verbatim>\<open>Archive.to_dict\<close>: the stored document with \<^verbatim>\<open>db_id\<close> and \<^verbatim>\<open>archiveDate\<close> merged in.
  The \<^verbatim>\<open>to_dict\<close> of the other three rows lists their columns, so a row stands for its
  own dictionary.
\<close>

record archive_dict =
  db_id :: nat
  d_archiveDate :: timestamp
  document :: archive_data

definition archive_to_dict :: "archive \<Rightarrow> archive_dict" where
  "archive_to_dict a =
     \<lparr>db_id = a_id a, d_archiveDate = archive_date a, document = archive_data a\<rparr>"

section \<open>The store\<close>

text \<open>
  The four tables, each in insertion order, and the next key of each (keys are never
  reused). A query without \<^verbatim>\<open>order_by\<close> reads a table in this order, and \<^verbatim>\<open>first()\<close>
  takes its first match; \<^verbatim>\<open>order_by\<close> sorts on top of this order, rows with equal keys
  staying in it.
\<close>

record db =
  cycles :: "cycle list"
  earnings :: "earning list"
  expenses :: "expense list"
  archives :: "archive list"
  next_cycle_id :: nat
  next_earning_id :: nat
  next_expense_id :: nat
  next_archive_id :: nat

definition empty_db :: db where
  "empty_db = \<lparr>cycles = [], earnings = [], expenses = [], archives = [],
     next_cycle_id = 1, next_earning_id = 1, next_expense_id = 1, next_archive_id = 1\<rparr>"

text \<open>\<^verbatim>\<open>db.session.add(row); db.session.commit()\<close> for a new row of each table.\<close>

definition insert_cycle :: "cycle \<Rightarrow> db \<Rightarrow> cycle \<times> db" where
  "insert_cycle c d =
     (let c' = c\<lparr>c_id := next_cycle_id d\<rparr>
      in (c', d\<lparr>cycles := cycles d @ [c'], next_cycle_id := Suc (next_cycle_id d)\<rparr>))"

definition insert_earning :: "earning \<Rightarrow> db \<Rightarrow> db" where
  "insert_earning e d =
     d\<lparr>earnings := earnings d @ [e\<lparr>e_id := next_earning_id d\<rparr>],
       next_earning_id := Suc (next_earning_id d)\<rparr>"

definition insert_expense :: "expense \<Rightarrow> db \<Rightarrow> db" where
  "insert_expense x d =
     d\<lparr>expenses := expenses d @ [x\<lparr>x_id := next_expense_id d\<rparr>],
       next_expense_id := Suc (next_expense_id d)\<rparr>"

definition insert_archive :: "archive \<Rightarrow> db \<Rightarrow> db" where
  "insert_archive a d =
     d\<lparr>archives := archives d @ [a\<lparr>a_id := next_archive_id d\<rparr>],
       next_archive_id := Suc (next_archive_id d)\<rparr>"

text \<open>Writing back a changed row: the row with the same primary key is replaced.\<close>

definition update_cycle :: "cycle \<Rightarrow> db \<Rightarrow> db" where
  "update_cycle c d = d\<lparr>cycles := map (\<lambda>r. if c_id r = c_id c then c else r) (cycles d)\<rparr>"

definition update_earning :: "earning \<Rightarrow> db \<Rightarrow> db" where
  "update_earning e d =
     d\<lparr>earnings := map (\<lambda>r. if e_id r = e_id e then e else r) (earnings d)\<rparr>"

text \<open>The relationships \<^verbatim>\<open>cycle.earnings\<close> and \<^verbatim>\<open>cycle.expenses\<close>, ordered by timestamp.\<close>

definition cycle_earnings :: "db \<Rightarrow> cycle \<Rightarrow> earning list" where
  "cycle_earnings d c = sort_key e_timestamp (filter (\<lambda>e. e_cycle_id e = c_id c) (earnings d))"

definition cycle_expenses :: "db \<Rightarrow> cycle \<Rightarrow> expense list" where
  "cycle_expenses d c = sort_key x_timestamp (filter (\<lambda>x. x_cycle_id x = c_id c) (expenses d))"

text \<open>\<^verbatim>\<open>Archive.query.order_by(Archive.archive_date.desc()).all()\<close>, each as a dictionary.\<close>

definition archives_list :: "db \<Rightarrow> archive_dict list" where
  "archives_list d = map archive_to_dict (sort_key (\<lambda>a. - archive_date a) (archives d))"

section \<open>Decimal addition and the columns of the store\<close>

text \<open>
  \<^verbatim>\<open>cycle.cumulative_earnings += amount\<close> is an addition of Python Decimals in the default
  context: the exact sum, rounded half-even to 28 significant digits (and to no finer than
  \<^verbatim>\<open>1E-1000026\<close>); \<^verbatim>\<open>decimal.Overflow\<close> when the rounded result reaches \<^verbatim>\<open>1E+1000000\<close>.
  \<open>adjusted x\<close> is the exponent of the leading digit of \<open>x\<close>.
\<close>

function ndigits :: "int \<Rightarrow> int" where
  "ndigits n = (if n < 10 then 1 else 1 + ndigits (n div 10))"
  by pat_completeness auto
termination
  by (relation "measure nat") auto

declare ndigits.simps [simp del]

definition adjusted :: "rat \<Rightarrow> int" where
  "adjusted x =
     (let e = ndigits \<bar>fst (quotient_of x)\<bar> - ndigits (snd (quotient_of x))
      in if 10 powi e \<le> \<bar>x\<bar> then e else e - 1)"

definition round_half_even :: "rat \<Rightarrow> int" where
  "round_half_even q =
     (let f = \<lfloor>q\<rfloor>; r = q - of_int f
      in if r < 1 / 2 then f else if 1 / 2 < r then f + 1 else if even f then f else f + 1)"

definition Decimal_add :: "rat \<Rightarrow> rat \<Rightarrow> py_exc + rat" where
  "Decimal_add x y =
     (if x + y = 0 then Inr 0
      else
        let quantum = max (adjusted (x + y) - 27) (- 1000026);
            z = of_int (round_half_even ((x + y) / 10 powi quantum)) * 10 powi quantum
        in if z \<noteq> 0 \<and> 999999 < adjusted z then Inl DecimalOverflow else Inr z)"

text \<open>
  A commit writes a Decimal into a \<^verbatim>\<open>Numeric(10, 2)\<close> column as PostgreSQL's
  \<^verbatim>\<open>numeric(10, 2)\<close> takes it: rounded to two places, halves away from zero, and refused
  (\<^verbatim>\<open>DataError\<close>) when the rounded value has more than eight digits before the point.
  An \<^verbatim>\<open>Integer\<close> column takes the 32-bit integers and refuses the others.
\<close>

definition round_cents :: "rat \<Rightarrow> rat" where
  "round_cents x = sgn x * of_int \<lfloor>\<bar>x\<bar> * 100 + 1 / 2\<rfloor> / 100"

definition fits_numeric_10_2 :: "rat \<Rightarrow> bool" where
  "fits_numeric_10_2 x = (\<bar>round_cents x\<bar> < 100000000)"

definition fits_integer :: "int \<Rightarrow> bool" where
  "fits_integer n = (- 2147483648 \<le> n \<and> n \<le> 2147483647)"

section \<open>Helper functions of \<^verbatim>\<open>app.py\<close>\<close>

definition get_active_cycle :: "db \<Rightarrow> cycle option" where
  "get_active_cycle d = find is_active (cycles d)"

text \<open>
  \<^verbatim>\<open>CurrentCycle(is_active=False)\<close>: every other column takes the default of the model
  (\<^verbatim>\<open>gas_cost\<close> and the four totals zero, the kilometres and the fuel price null,
  \<^verbatim>\<open>start_time\<close> the time of the insert).
\<close>

definition default_cycle :: "timestamp \<Rightarrow> cycle" where
  "default_cycle now =
     \<lparr>c_id = 0, gas_cost = 0, start_km = None, end_km = None, fuel_price_per_liter = None,
      is_active = False, start_time = now, cumulative_earnings = 0,
      cumulative_race_count = 0, current_period_earnings = 0,
      current_period_race_count = 0\<rparr>"

definition get_or_create_active_cycle :: "timestamp \<Rightarrow> db \<Rightarrow> cycle \<times> db" where
  "get_or_create_active_cycle now d =
     (case get_active_cycle d of
        Some cycle \<Rightarrow> (cycle, d)
      | None \<Rightarrow> insert_cycle (default_cycle now) d)"

section \<open>Responses\<close>

record app_state =
  currentCycle :: cycle
  earningsList :: "earning list"
  expenseList :: "expense list"
  st_archives :: "archive_dict list"

text \<open>The messages of the handlers, one constructor for each text.\<close>

datatype message =
  Payload_invalido
| Custo_da_gasolina_deve_ser_positivo
| Valor_invalido_para_custo_da_gasolina
| Nenhum_ciclo_ativo_para_finalizar
| KM_final_menor_que_inicial int int
| Valor_invalido_para_KM_final
| Nenhum_ciclo_ativo_para_adicionar_ganhos
| Payload_invalido_amount_new_period_total
| Dados_invalidos py_exc
| Ciclo_inativo
| Corrida_nao_encontrada
| Payload_invalido_amount
| Valor_da_corrida_negativo
| Valor_invalido_para_amount
| Nenhum_ciclo_ativo_para_adicionar_despesas
| Payload_invalido_category_amount
| Valor_da_despesa_deve_ser_positivo
| Despesa_nao_encontrada
| Nenhum_ciclo_ativo_para_arquivar_periodo
| Sem_dados_no_periodo_atual
| Arquivo_nao_encontrado
| Nenhum_ciclo_ativo_para_atualizar
| KM_inicial_maior_que_final int int
| Nenhum_campo_valido
| Arquivo_excluido
| Banco_resetado
| Unhandled_exception py_exc

datatype payload =
  Error message
| Message message
| State app_state
| Cycle cycle
| Archives "archive_dict list"
| Deleted message "archive_dict list"

type_synonym response = "nat \<times> payload"

section \<open>The routes\<close>

text \<open>
  Every handler takes the library, the time of the request and the store, and returns
  the response with the store as committed. The one time \<open>now\<close> stands for every
  \<^verbatim>\<open>datetime.utcnow()\<close> of the request. A handler that returns or raises before
  \<^verbatim>\<open>db.session.commit()\<close> leaves the store as it was: the session of the request is
  discarded with what it had pending.

  The columns of the store hold finite numbers. A commit that the store refuses raises
  \<^verbatim>\<open>DataError\<close>, which no handler catches: status 500 and nothing written. That is so for
  a finite value beyond a column (written out in \<^verbatim>\<open>add_earning\<close>, where the response is
  stated for every amount; the other handlers keep a finite value as it is), and it is
  taken to be so for a Decimal that is not finite, as PostgreSQL does for an infinite
  value in a \<^verbatim>\<open>numeric(10, 2)\<close>. A store that keeps a NaN is beyond this model.
\<close>

definition commit_fails :: "db \<Rightarrow> response \<times> db" where
  "commit_fails d = ((500, Error (Unhandled_exception DataError)), d)"

definition get_app_state :: "timestamp \<Rightarrow> db \<Rightarrow> response \<times> db" where
  "get_app_state now d =
     (let (cycle, d') = get_or_create_active_cycle now d
      in ((200, State \<lparr>currentCycle = cycle,
                        earningsList = cycle_earnings d' cycle,
                        expenseList = cycle_expenses d' cycle,
                        st_archives = archives_list d'\<rparr>), d'))"

subsection \<open>\<^verbatim>\<open>POST /api/cycles/start\<close>\<close>

text \<open>
  The gas cost is converted inside the \<^verbatim>\<open>try\<close>; \<^verbatim>\<open>int(start_km_str)\<close> and
  \<^verbatim>\<open>Decimal(fuel_price_str)\<close> are outside it and guarded by the truth value of the input,
  so an exception there is unhandled (status 500). A gas cost that is a NaN raises
  \<^verbatim>\<open>InvalidOperation\<close> in \<^verbatim>\<open>gas_cost <= 0\<close>, inside the \<^verbatim>\<open>try\<close>; minus infinity is not
  positive; plus infinity passes the test and goes on to the commit.
\<close>

text \<open>\<^verbatim>\<open>int(v) if v else None\<close> and \<^verbatim>\<open>Decimal(v) if v else None\<close>\<close>

definition int_if_truthy :: "pylib \<Rightarrow> json \<Rightarrow> py_exc + int option" where
  "int_if_truthy L v = (if truthy v then map_sum id Some (to_int L v) else Inr None)"

definition Decimal_if_truthy :: "pylib \<Rightarrow> json \<Rightarrow> no_number + rat option" where
  "Decimal_if_truthy L v = (if truthy v then map_sum id Some (to_Decimal L v) else Inr None)"

definition start_cycle :: "pylib \<Rightarrow> timestamp \<Rightarrow> body \<Rightarrow> db \<Rightarrow> response \<times> db" where
  "start_cycle L now data d =
     (if data = [] then ((400, Error Payload_invalido), d)
      else
        let gas_cost_str = get data ''gas_cost'';
            start_km_str = get data ''start_km'';
            fuel_price_str = get data ''fuel_price''
        in (case (if gas_cost_str \<noteq> JNull then to_Decimal L gas_cost_str else Inr 0) of
              Inl (Raises e) \<Rightarrow> ((400, Error Valor_invalido_para_custo_da_gasolina), d)
            | Inl (Non_finite NaN) \<Rightarrow>
                ((400, Error Valor_invalido_para_custo_da_gasolina), d)
            | Inl (Non_finite NegInf) \<Rightarrow>
                ((400, Error Custo_da_gasolina_deve_ser_positivo), d)
            | Inl (Non_finite PosInf) \<Rightarrow>
               (case int_if_truthy L start_km_str of
                  Inl e \<Rightarrow> ((500, Error (Unhandled_exception e)), d)
                | Inr start_km' \<Rightarrow>
                   (case Decimal_if_truthy L fuel_price_str of
                      Inl (Raises e) \<Rightarrow> ((500, Error (Unhandled_exception e)), d)
                    | Inl (Non_finite n) \<Rightarrow> commit_fails d
                    | Inr fuel_price \<Rightarrow> commit_fails d))
            | Inr gas_cost' \<Rightarrow>
               (if gas_cost' \<le> 0 then ((400, Error Custo_da_gasolina_deve_ser_positivo), d)
                else
                 (case int_if_truthy L start_km_str of
                    Inl e \<Rightarrow> ((500, Error (Unhandled_exception e)), d)
                  | Inr start_km' \<Rightarrow>
                     (case Decimal_if_truthy L fuel_price_str of
                        Inl (Raises e) \<Rightarrow> ((500, Error (Unhandled_exception e)), d)
                      | Inl (Non_finite n) \<Rightarrow> commit_fails d
                      | Inr fuel_price \<Rightarrow>
                         (let d1 = (case get_active_cycle d of
                                      Some existing_active \<Rightarrow>
                                        update_cycle (existing_active\<lparr>is_active := False\<rparr>) d
                                    | None \<Rightarrow> d);
                              (new_cycle, d2) = insert_cycle
                                 \<lparr>c_id = 0, gas_cost = gas_cost', start_km = start_km',
                                  end_km = None, fuel_price_per_liter = fuel_price,
                                  is_active = True, start_time = now,
                                  cumulative_earnings = 0, cumulative_race_count = 0,
                                  current_period_earnings = 0,
                                  current_period_race_count = 0\<rparr> d1
                          in ((201, Cycle new_cycle), d2)))))))"

subsection \<open>\<^verbatim>\<open>POST /api/cycles/finalize\<close>\<close>

text \<open>The derived figures of the full archive (lines 138 to 148 of \<^verbatim>\<open>app.py\<close>).\<close>

definition total_other_expenses :: "expense list \<Rightarrow> rat" where
  "total_other_expenses xs = sum_list (map x_amount xs)"

definition km_driven :: "cycle \<Rightarrow> int" where
  "km_driven c =
     (case (start_km c, end_km c) of
        (Some s, Some e) \<Rightarrow> if e \<ge> s then e - s else 0
      | _ \<Rightarrow> 0)"

definition km_per_liter :: "cycle \<Rightarrow> rat option" where
  "km_per_liter c =
     (case fuel_price_per_liter c of
        None \<Rightarrow> None
      | Some fp \<Rightarrow>
          if km_driven c > 0 \<and> gas_cost c > 0 \<and> fp > 0
          then (let liters_used = gas_cost c / fp
                in if liters_used > 0 then Some (of_int (km_driven c) / liters_used) else None)
          else None)"

definition cost_per_km :: "cycle \<Rightarrow> expense list \<Rightarrow> rat option" where
  "cost_per_km c xs =
     (if km_driven c > 0
      then Some ((gas_cost c + total_other_expenses xs) / of_int (km_driven c))
      else None)"

definition full_archive_payload ::
  "timestamp \<Rightarrow> json \<Rightarrow> cycle \<Rightarrow> earning list \<Rightarrow> expense list \<Rightarrow> full_payload" where
  "full_archive_payload now note' c es xs =
     \<lparr>archiveDate = now,
      cycleEarnings = cumulative_earnings c,
      gasCost = gas_cost c,
      expensesList = xs,
      cycleRaceCount = cumulative_race_count c,
      startKM = start_km c,
      endKM = end_km c,
      fuelPricePerLiter =
        (case fuel_price_per_liter c of
           None \<Rightarrow> None
         | Some fp \<Rightarrow> if fp \<noteq> 0 then Some fp else None),
      f_note = note',
      summary_totalOtherExpenses = total_other_expenses xs,
      summary_profit = cumulative_earnings c - gas_cost c - total_other_expenses xs,
      summary_kmDriven = km_driven c,
      summary_kmPerLiter = km_per_liter c,
      summary_costPerKm = cost_per_km c xs,
      periodEndDate = now,
      earningsDetails = es\<rparr>"

text \<open>
  \<^verbatim>\<open>end_km < cycle.start_km\<close>, evaluated only when \<^verbatim>\<open>cycle.start_km is not None\<close>; then
  \<^verbatim>\<open>end_km\<close> is an integer too (the converted input or \<^verbatim>\<open>start_km\<close> itself).
\<close>

definition end_below_start :: "int option \<Rightarrow> int option \<Rightarrow> bool" where
  "end_below_start e s =
     (case (s, e) of (Some s', Some e') \<Rightarrow> e' < s' | _ \<Rightarrow> False)"

definition finalize_cycle :: "pylib \<Rightarrow> timestamp \<Rightarrow> body \<Rightarrow> db \<Rightarrow> response \<times> db" where
  "finalize_cycle L now data d =
     (case get_active_cycle d of
        None \<Rightarrow> ((400, Error Nenhum_ciclo_ativo_para_finalizar), d)
      | Some cycle \<Rightarrow>
         (let end_km_str = get data ''end_km'';
              note' = get_default data ''note'' (JStr [])
          in (case (if end_km_str \<noteq> JNull then map_sum id Some (to_int L end_km_str)
                    else Inr (start_km cycle)) of
                Inl e \<Rightarrow>
                 (if e = ValueError \<or> e = TypeError
                  then ((400, Error Valor_invalido_para_KM_final), d)
                  else ((500, Error (Unhandled_exception e)), d))
              | Inr end_km' \<Rightarrow>
                 (if end_below_start end_km' (start_km cycle)
                  then ((400, Error (KM_final_menor_que_inicial
                           (the end_km') (the (start_km cycle)))), d)
                  else
                   (let cycle1 = cycle\<lparr>end_km := end_km'\<rparr>;
                        earnings_list = cycle_earnings d cycle1;
                        expenses_list = cycle_expenses d cycle1;
                        archive_payload =
                          full_archive_payload now note' cycle1 earnings_list expenses_list;
                        d1 = insert_archive
                               \<lparr>a_id = 0, archive_data = Ciclo_Completo archive_payload,
                                archive_date = now\<rparr> d;
                        d2 = update_cycle (cycle1\<lparr>is_active := False\<rparr>) d1
                    in get_app_state now d2)))))"

subsection \<open>Earnings\<close>

text \<open>
  \<^verbatim>\<open>Decimal(v)\<close> as the handlers below see it: the exception it raises, or the Decimal it
  returns, finite or not.
\<close>

definition Decimal_value :: "pylib \<Rightarrow> json \<Rightarrow> py_exc + (nonfinite + rat)" where
  "Decimal_value L v =
     (case to_Decimal L v of
        Inl (Raises e) \<Rightarrow> Inl e
      | Inl (Non_finite n) \<Rightarrow> Inr (Inl n)
      | Inr x \<Rightarrow> Inr (Inr x))"

text \<open>The exceptions of \<^verbatim>\<open>except (InvalidOperation, TypeError, ValueError)\<close>.\<close>

definition caught :: "py_exc \<Rightarrow> bool" where
  "caught e = (e = InvalidOperation \<or> e = TypeError \<or> e = ValueError)"

text \<open>
  \<^verbatim>\<open>add_earning\<close> converts the two amounts and the timestamp, then compares
  \<^verbatim>\<open>amount < 0\<close> (a NaN raises \<^verbatim>\<open>InvalidOperation\<close> there, inside the \<^verbatim>\<open>try\<close>), assigns
  \<^verbatim>\<open>new_period_total\<close>, adds with \<^verbatim>\<open>cycle.cumulative_earnings += amount\<close> (a Decimal
  addition, whose \<^verbatim>\<open>Overflow\<close> the \<^verbatim>\<open>except\<close> clause does not catch) and commits. The
  commit sends the amount of the new row and the two totals to \<^verbatim>\<open>Numeric(10, 2)\<close> columns
  and the two counters to \<^verbatim>\<open>Integer\<close> columns. \<open>add_earning_accepted\<close> says that the
  store takes all that is sent; what it then holds are the values rounded to two
  places.
\<close>

definition add_earning_accepted :: "cycle \<Rightarrow> rat \<Rightarrow> rat \<Rightarrow> rat \<Rightarrow> bool" where
  "add_earning_accepted cycle amount new_period_total new_cumulative =
     ((amount < 0 \<or> fits_numeric_10_2 amount)
      \<and> fits_numeric_10_2 new_period_total
      \<and> fits_numeric_10_2 new_cumulative
      \<and> (amount \<le> 0
           \<or> (fits_integer (current_period_race_count cycle + 1)
                \<and> fits_integer (cumulative_race_count cycle + 1))))"

definition add_earning :: "pylib \<Rightarrow> timestamp \<Rightarrow> body \<Rightarrow> db \<Rightarrow> response \<times> db" where
  "add_earning L now data d =
     (case get_active_cycle d of
        None \<Rightarrow> ((400, Error Nenhum_ciclo_ativo_para_adicionar_ganhos), d)
      | Some cycle \<Rightarrow>
         (if data = [] \<or> \<not> has_key data ''amount'' \<or> \<not> has_key data ''new_period_total''
          then ((400, Error Payload_invalido_amount_new_period_total), d)
          else
           (case Decimal_value L (get data ''amount'') of
              Inl e \<Rightarrow> ((400, Error (Dados_invalidos e)), d)
            | Inr amount \<Rightarrow>
               (case Decimal_value L (get data ''new_period_total'') of
                  Inl e \<Rightarrow> ((400, Error (Dados_invalidos e)), d)
                | Inr new_period_total \<Rightarrow>
                   (case parse_timestamp L now data of
                      Inl e \<Rightarrow> ((400, Error (Dados_invalidos e)), d)
                    | Inr timestamp \<Rightarrow>
                       (case amount of
                          Inl NaN \<Rightarrow> ((400, Error (Dados_invalidos InvalidOperation)), d)
                        | Inl PosInf \<Rightarrow> commit_fails d
                        | Inl NegInf \<Rightarrow> commit_fails d
                        | Inr amount' \<Rightarrow>
                           (case Decimal_add (cumulative_earnings cycle) amount' of
                              Inl e \<Rightarrow> ((500, Error (Unhandled_exception e)), d)
                            | Inr new_cumulative \<Rightarrow>
                               (case new_period_total of
                                  Inl n \<Rightarrow> commit_fails d
                                | Inr new_period_total' \<Rightarrow>
                                   (if add_earning_accepted cycle amount' new_period_total' new_cumulative
                                    then
                                     (let d1 = (if amount' < 0 then d
                                                else insert_earning
                                                       \<lparr>e_id = 0, e_cycle_id = c_id cycle,
                                                        e_timestamp = timestamp,
                                                        e_amount = round_cents amount'\<rparr> d);
                                          cycle1 = cycle
                                            \<lparr>current_period_earnings :=
                                               round_cents new_period_total',
                                             cumulative_earnings := round_cents new_cumulative\<rparr>;
                                          cycle2 = (if amount' > 0
                                                    then cycle1
                                                      \<lparr>current_period_race_count :=
                                                         current_period_race_count cycle1 + 1,
                                                       cumulative_race_count :=
                                                         cumulative_race_count cycle1 + 1\<rparr>
                                                    else cycle1)
                                      in get_app_state now (update_cycle cycle2 d1))
                                    else commit_fails d)))))))))"

text \<open>\<^verbatim>\<open>Earning.query.filter_by(id=earning_id, cycle_id=cycle.id).first()\<close>\<close>

definition find_earning :: "db \<Rightarrow> nat \<Rightarrow> cycle \<Rightarrow> earning option" where
  "find_earning d earning_id c =
     find (\<lambda>e. e_id e = earning_id \<and> e_cycle_id e = c_id c) (earnings d)"

definition edit_earning :: "pylib \<Rightarrow> timestamp \<Rightarrow> nat \<Rightarrow> body \<Rightarrow> db \<Rightarrow> response \<times> db" where
  "edit_earning L now earning_id data d =
     (case get_active_cycle d of
        None \<Rightarrow> ((400, Error Ciclo_inativo), d)
      | Some cycle \<Rightarrow>
         (case find_earning d earning_id cycle of
            None \<Rightarrow> ((404, Error Corrida_nao_encontrada), d)
          | Some earning \<Rightarrow>
             (if data = [] \<or> \<not> has_key data ''amount''
              then ((400, Error Payload_invalido_amount), d)
              else
               (case to_Decimal L (get data ''amount'') of
                  Inl (Raises e) \<Rightarrow>
                   (if e = InvalidOperation \<or> e = TypeError
                    then ((400, Error Valor_invalido_para_amount), d)
                    else ((500, Error (Unhandled_exception e)), d))
                | Inl (Non_finite NaN) \<Rightarrow> ((400, Error Valor_invalido_para_amount), d)
                | Inl (Non_finite NegInf) \<Rightarrow> ((400, Error Valor_da_corrida_negativo), d)
                | Inl (Non_finite PosInf) \<Rightarrow> commit_fails d
                | Inr new_amount \<Rightarrow>
                   (if new_amount < 0 then ((400, Error Valor_da_corrida_negativo), d)
                    else
                     (let old_amount = e_amount earning;
                          difference = new_amount - old_amount;
                          d1 = update_earning (earning\<lparr>e_amount := new_amount\<rparr>) d;
                          cycle1 = cycle\<lparr>cumulative_earnings :=
                                           cumulative_earnings cycle + difference,
                                         current_period_earnings :=
                                           current_period_earnings cycle + difference\<rparr>
                      in get_app_state now (update_cycle cycle1 d1)))))))"

definition delete_earning :: "timestamp \<Rightarrow> nat \<Rightarrow> db \<Rightarrow> response \<times> db" where
  "delete_earning now earning_id d =
     (case get_active_cycle d of
        None \<Rightarrow> ((400, Error Ciclo_inativo), d)
      | Some cycle \<Rightarrow>
         (case find_earning d earning_id cycle of
            None \<Rightarrow> ((404, Error Corrida_nao_encontrada), d)
          | Some earning \<Rightarrow>
             (let amount_deleted = e_amount earning;
                  d1 = d\<lparr>earnings := filter (\<lambda>e. e_id e \<noteq> e_id earning) (earnings d)\<rparr>;
                  cycle1 = cycle\<lparr>cumulative_earnings :=
                                   cumulative_earnings cycle - amount_deleted,
                                 current_period_earnings :=
                                   current_period_earnings cycle - amount_deleted,
                                 cumulative_race_count := cumulative_race_count cycle - 1,
                                 current_period_race_count :=
                                   current_period_race_count cycle - 1\<rparr>;
                  cycle2 = cycle1\<lparr>cumulative_earnings := max 0 (cumulative_earnings cycle1),
                                  current_period_earnings :=
                                    max 0 (current_period_earnings cycle1),
                                  cumulative_race_count :=
                                    max 0 (cumulative_race_count cycle1),
                                  current_period_race_count :=
                                    max 0 (current_period_race_count cycle1)\<rparr>
              in get_app_state now (update_cycle cycle2 d1))))"

subsection \<open>Expenses\<close>

definition add_expense :: "pylib \<Rightarrow> timestamp \<Rightarrow> body \<Rightarrow> db \<Rightarrow> response \<times> db" where
  "add_expense L now data d =
     (case get_active_cycle d of
        None \<Rightarrow> ((400, Error Nenhum_ciclo_ativo_para_adicionar_despesas), d)
      | Some cycle \<Rightarrow>
         (if data = [] \<or> \<not> has_key data ''category'' \<or> \<not> has_key data ''amount''
          then ((400, Error Payload_invalido_category_amount), d)
          else
           (case to_Decimal L (get data ''amount'') of
              Inl (Raises e) \<Rightarrow> ((400, Error (Dados_invalidos e)), d)
            | Inl (Non_finite NaN) \<Rightarrow> ((400, Error (Dados_invalidos InvalidOperation)), d)
            | Inl (Non_finite NegInf) \<Rightarrow>
                ((400, Error Valor_da_despesa_deve_ser_positivo), d)
            | Inl (Non_finite PosInf) \<Rightarrow>
               (case parse_timestamp L now data of
                  Inl e \<Rightarrow> ((400, Error (Dados_invalidos e)), d)
                | Inr timestamp \<Rightarrow> commit_fails d)
            | Inr amount \<Rightarrow>
               (if amount \<le> 0 then ((400, Error Valor_da_despesa_deve_ser_positivo), d)
                else
                 (case parse_timestamp L now data of
                    Inl e \<Rightarrow> ((400, Error (Dados_invalidos e)), d)
                  | Inr timestamp \<Rightarrow>
                     (let d1 = insert_expense
                                 \<lparr>x_id = 0, x_cycle_id = c_id cycle, x_timestamp = timestamp,
                                  x_category = get data ''category'', x_amount = amount\<rparr> d;
                          (r, d2) = get_app_state now d1
                      in ((201, snd r), d2)))))))"

definition find_expense :: "db \<Rightarrow> nat \<Rightarrow> cycle \<Rightarrow> expense option" where
  "find_expense d expense_id c =
     find (\<lambda>x. x_id x = expense_id \<and> x_cycle_id x = c_id c) (expenses d)"

definition delete_expense :: "timestamp \<Rightarrow> nat \<Rightarrow> db \<Rightarrow> response \<times> db" where
  "delete_expense now expense_id d =
     (case get_active_cycle d of
        None \<Rightarrow> ((400, Error Ciclo_inativo), d)
      | Some cycle \<Rightarrow>
         (case find_expense d expense_id cycle of
            None \<Rightarrow> ((404, Error Despesa_nao_encontrada), d)
          | Some expense \<Rightarrow>
              get_app_state now
                (d\<lparr>expenses := filter (\<lambda>x. x_id x \<noteq> x_id expense) (expenses d)\<rparr>)))"

subsection \<open>Archives\<close>

definition get_archives :: "db \<Rightarrow> response \<times> db" where
  "get_archives d = ((200, Archives (archives_list d)), d)"

definition partial_archive_payload ::
  "timestamp \<Rightarrow> json \<Rightarrow> cycle \<Rightarrow> earning list \<Rightarrow> expense list \<Rightarrow> partial_payload" where
  "partial_archive_payload period_end_date note' c es xs =
     \<lparr>p_archiveDate = period_end_date,
      periodEarnings = current_period_earnings c,
      periodRaceCount = current_period_race_count c,
      p_periodEndDate = period_end_date,
      p_earningsDetails = es,
      p_note = note',
      gasCostSnapshot = gas_cost c,
      cycleProfitSnapshot = cumulative_earnings c - gas_cost c - total_other_expenses xs\<rparr>"

definition archive_period :: "timestamp \<Rightarrow> body \<Rightarrow> db \<Rightarrow> response \<times> db" where
  "archive_period now data d =
     (case get_active_cycle d of
        None \<Rightarrow> ((400, Error Nenhum_ciclo_ativo_para_arquivar_periodo), d)
      | Some cycle \<Rightarrow>
         (if current_period_earnings cycle \<le> 0 \<and> current_period_race_count cycle \<le> 0
          then ((400, Error Sem_dados_no_periodo_atual), d)
          else
           (let note' = get_default data ''note'' (JStr []);
                earnings_details_list = cycle_earnings d cycle;
                period_end_date = now;
                expenses_list = cycle_expenses d cycle;
                archive_payload =
                  partial_archive_payload period_end_date note' cycle
                    earnings_details_list expenses_list;
                d1 = insert_archive
                       \<lparr>a_id = 0, archive_data = Periodo_Parcial archive_payload,
                        archive_date = period_end_date\<rparr> d;
                d2 = d1\<lparr>earnings := filter (\<lambda>e. e_cycle_id e \<noteq> c_id cycle) (earnings d1)\<rparr>;
                cycle1 = cycle\<lparr>current_period_earnings := 0,
                               current_period_race_count := 0,
                               cumulative_earnings := 0,
                               cumulative_race_count := 0\<rparr>
            in get_app_state now (update_cycle cycle1 d2))))"

text \<open>
  \<^verbatim>\<open>delete_archive\<close> looks at the active cycle and the type of the archive and then does
  nothing with them (\<^verbatim>\<open>pass\<close>): the archive is deleted and no cycle is touched.
\<close>

definition delete_archive :: "nat \<Rightarrow> db \<Rightarrow> response \<times> db" where
  "delete_archive archive_id d =
     (case find (\<lambda>a. a_id a = archive_id) (archives d) of
        None \<Rightarrow> ((404, Error Arquivo_nao_encontrado), d)
      | Some archive \<Rightarrow>
         (let d1 = d\<lparr>archives := filter (\<lambda>a. a_id a \<noteq> a_id archive) (archives d)\<rparr>
          in ((200, Deleted Arquivo_excluido (archives_list d1)), d1)))"

subsection \<open>\<^verbatim>\<open>PUT /api/cycles/current\<close>\<close>

text \<open>
  The four \<^verbatim>\<open>if 'field' in data\<close> blocks run in this order on the cycle object of the
  session, each seeing the assignments of the blocks before it. A block ends the request
  by its \<^verbatim>\<open>return\<close> (a kilometre bound, status 400) or by an exception of the conversion:
  status 400 with \<^verbatim>\<open>Dados invalidos\<close> when the \<^verbatim>\<open>except\<close> clause catches it, status 500
  otherwise (the \<^verbatim>\<open>OverflowError\<close> of \<^verbatim>\<open>int\<close>); \<open>Inl\<close> carries that response. The state
  that the blocks pass on is the cycle, the flag \<^verbatim>\<open>updated\<close>, and whether a column of the
  cycle has been assigned a Decimal that is not finite.
\<close>

definition conversion_failed :: "py_exc \<Rightarrow> response" where
  "conversion_failed e =
     (if caught e then (400, Error (Dados_invalidos e))
      else (500, Error (Unhandled_exception e)))"

definition upd_gas_cost ::
  "pylib \<Rightarrow> body \<Rightarrow> cycle \<times> bool \<times> bool \<Rightarrow> response + cycle \<times> bool \<times> bool" where
  "upd_gas_cost L data cu =
     (if has_key data ''gas_cost''
      then (case to_Decimal L (get data ''gas_cost'') of
              Inl (Raises e) \<Rightarrow> Inl (conversion_failed e)
            | Inl (Non_finite n) \<Rightarrow> Inr (fst cu, True, True)
            | Inr g \<Rightarrow> Inr ((fst cu)\<lparr>gas_cost := g\<rparr>, True, snd (snd cu)))
      else Inr cu)"

definition upd_fuel_price ::
  "pylib \<Rightarrow> body \<Rightarrow> cycle \<times> bool \<times> bool \<Rightarrow> response + cycle \<times> bool \<times> bool" where
  "upd_fuel_price L data cu =
     (if has_key data ''fuel_price''
      then (case (if get data ''fuel_price'' \<noteq> JNull
                  then map_sum id Some (to_Decimal L (get data ''fuel_price''))
                  else Inr None) of
              Inl (Raises e) \<Rightarrow> Inl (conversion_failed e)
            | Inl (Non_finite n) \<Rightarrow> Inr (fst cu, True, True)
            | Inr fp \<Rightarrow> Inr ((fst cu)\<lparr>fuel_price_per_liter := fp\<rparr>, True, snd (snd cu)))
      else Inr cu)"

definition upd_start_km ::
  "pylib \<Rightarrow> body \<Rightarrow> cycle \<times> bool \<times> bool \<Rightarrow> response + cycle \<times> bool \<times> bool" where
  "upd_start_km L data cu =
     (if has_key data ''start_km''
      then (case (if get data ''start_km'' \<noteq> JNull
                  then map_sum id Some (to_int L (get data ''start_km''))
                  else Inr None) of
              Inl e \<Rightarrow> Inl (conversion_failed e)
            | Inr new_start_km \<Rightarrow>
               (case (end_km (fst cu), new_start_km) of
                  (Some e, Some s) \<Rightarrow>
                    if s > e then Inl (400, Error (KM_inicial_maior_que_final s e))
                    else Inr ((fst cu)\<lparr>start_km := new_start_km\<rparr>, True, snd (snd cu))
                | _ \<Rightarrow> Inr ((fst cu)\<lparr>start_km := new_start_km\<rparr>, True, snd (snd cu))))
      else Inr cu)"

definition upd_end_km ::
  "pylib \<Rightarrow> body \<Rightarrow> cycle \<times> bool \<times> bool \<Rightarrow> response + cycle \<times> bool \<times> bool" where
  "upd_end_km L data cu =
     (if has_key data ''end_km''
      then (case (if get data ''end_km'' \<noteq> JNull
                  then map_sum id Some (to_int L (get data ''end_km''))
                  else Inr None) of
              Inl e \<Rightarrow> Inl (conversion_failed e)
            | Inr new_end_km \<Rightarrow>
               (case (start_km (fst cu), new_end_km) of
                  (Some s, Some e) \<Rightarrow>
                    if e < s then Inl (400, Error (KM_final_menor_que_inicial e s))
                    else Inr ((fst cu)\<lparr>end_km := new_end_km\<rparr>, True, snd (snd cu))
                | _ \<Rightarrow> Inr ((fst cu)\<lparr>end_km := new_end_km\<rparr>, True, snd (snd cu))))
      else Inr cu)"

definition and_then :: "response + 'a \<Rightarrow> ('a \<Rightarrow> response + 'b) \<Rightarrow> response + 'b" where
  "and_then r f = (case r of Inl m \<Rightarrow> Inl m | Inr x \<Rightarrow> f x)"

definition apply_fields ::
  "pylib \<Rightarrow> body \<Rightarrow> cycle \<Rightarrow> response + cycle \<times> bool \<times> bool" where
  "apply_fields L data cycle =
     and_then (and_then (and_then (upd_gas_cost L data (cycle, False, False))
       (upd_fuel_price L data)) (upd_start_km L data)) (upd_end_km L data)"

definition update_cycle_fields :: "pylib \<Rightarrow> timestamp \<Rightarrow> body \<Rightarrow> db \<Rightarrow> response \<times> db" where
  "update_cycle_fields L now data d =
     (case get_active_cycle d of
        None \<Rightarrow> ((400, Error Nenhum_ciclo_ativo_para_atualizar), d)
      | Some cycle \<Rightarrow>
         (if data = [] then ((400, Error Payload_invalido), d)
          else
           (case apply_fields L data cycle of
              Inl r \<Rightarrow> (r, d)
            | Inr cu \<Rightarrow>
               (if fst (snd cu)
                then (if snd (snd cu) then commit_fails d
                      else get_app_state now (update_cycle (fst cu) d))
                else ((400, Message Nenhum_campo_valido), d)))))"

subsection \<open>\<^verbatim>\<open>POST /api/reset\<close>\<close>

definition reset_database :: "timestamp \<Rightarrow> db \<Rightarrow> response \<times> db" where
  "reset_database now d =
     (let d1 = d\<lparr>earnings := [], expenses := [], archives := [], cycles := []\<rparr>;
          (cycle, d2) = get_or_create_active_cycle now d1
      in ((200, Message Banco_resetado), d2))"

subsection \<open>The API as a whole\<close>

datatype request =
  GET_state
| POST_cycles_start body
| POST_cycles_finalize body
| PUT_cycles_current body
| POST_earnings body
| PUT_earnings nat body
| DELETE_earnings nat
| POST_expenses body
| DELETE_expenses nat
| GET_archives
| POST_archives_period body
| DELETE_archives nat
| POST_reset

fun handle :: "pylib \<Rightarrow> timestamp \<Rightarrow> request \<Rightarrow> db \<Rightarrow> response \<times> db" where
  "handle L now GET_state d = get_app_state now d"
| "handle L now (POST_cycles_start data) d = start_cycle L now data d"
| "handle L now (POST_cycles_finalize data) d = finalize_cycle L now data d"
| "handle L now (PUT_cycles_current data) d = update_cycle_fields L now data d"
| "handle L now (POST_earnings data) d = add_earning L now data d"
| "handle L now (PUT_earnings i data) d = edit_earning L now i data d"
| "handle L now (DELETE_earnings i) d = delete_earning now i d"
| "handle L now (POST_expenses data) d = add_expense L now data d"
| "handle L now (DELETE_expenses i) d = delete_expense now i d"
| "handle L now GET_archives d = get_archives d"
| "handle L now (POST_archives_period data) d = archive_period now data d"
| "handle L now (DELETE_archives i) d = delete_archive i d"
| "handle L now POST_reset d = reset_database now d"

text \<open>A sequence of requests, each with the time at which it is served.\<close>

fun run :: "pylib \<Rightarrow> (timestamp \<times> request) list \<Rightarrow> db \<Rightarrow> db" where
  "run L [] d = d"
| "run L (tr # rs) d = run L rs (snd (handle L (fst tr) (snd tr) d))"

text \<open>
  The library at the strings that the examples below send. A string that is not listed
  (\<^verbatim>\<open>"abc"\<close> is one) stands for one that the function rejects.
\<close>

definition example_lib :: pylib where
  "example_lib =
     \<lparr>Decimal_of_str = map_of [(''50.00'', Inr 50), (''20.00'', Inr 20), (''-5.00'', Inr (- 5)),
                               (''0.001'', Inr (1 / 1000)), (''100000000'', Inr 100000000)],
      int_of_str = map_of [(''1000'', 1000), (''900'', 900)],
      fromisoformat = map_of [(''2024-01-01T00:00:00'', 0)]\<rparr>"

text \<open>A store in which a cycle has been started: gas cost 50.00, odometer 1000.\<close>

definition started_db :: db where
  "started_db = snd (start_cycle example_lib 1
      [(''gas_cost'', JStr ''50.00''), (''start_km'', JStr ''1000'')] empty_db)"



section \<open>Properties of a store\<close>

text \<open>At most one row of \<^verbatim>\<open>current_cycle\<close> has \<^verbatim>\<open>is_active = True\<close>.\<close>

definition at_most_one_active :: "db \<Rightarrow> bool" where
  "at_most_one_active d = (length (filter is_active (cycles d)) \<le> 1)"

text \<open>The primary keys of the cycles are distinct and below the next key.\<close>

definition keys_fresh :: "db \<Rightarrow> bool" where
  "keys_fresh d = (distinct (map c_id (cycles d))
                   \<and> list_all (\<lambda>k. k < next_cycle_id d) (map c_id (cycles d)))"

definition cycles_ok :: "db \<Rightarrow> bool" where
  "cycles_ok d = (keys_fresh d \<and> at_most_one_active d)"

text \<open>No cycle has a negative race counter.\<close>

definition counters_ok :: "cycle \<Rightarrow> bool" where
  "counters_ok c = (0 \<le> cumulative_race_count c \<and> 0 \<le> current_period_race_count c)"

definition race_counts_ok :: "db \<Rightarrow> bool" where
  "race_counts_ok d = list_all counters_ok (cycles d)"

text \<open>A number with at most two digits after the point: a whole number of cents.\<close>

definition two_places :: "rat \<Rightarrow> bool" where
  "two_places x = (of_int \<lfloor>x * 100\<rfloor> = x * 100)"

section \<open>Basic facts about the helpers\<close>

lemma get_active_cycle_Some:
  "get_active_cycle d = Some c \<Longrightarrow> c \<in> set (cycles d) \<and> is_active c"
  by (auto simp: get_active_cycle_def find_Some_iff)

lemma get_active_cycle_None:
  "get_active_cycle d = None \<longleftrightarrow> (\<forall>c\<in>set (cycles d). \<not> is_active c)"
  by (auto simp: get_active_cycle_def find_None_iff)

lemma get_or_create_active:
  "get_active_cycle d = Some c \<Longrightarrow> get_or_create_active_cycle now d = (c, d)"
  by (simp add: get_or_create_active_cycle_def)

lemma get_app_state_active:
  "get_active_cycle d = Some c \<Longrightarrow>
   get_app_state now d =
     ((200, State \<lparr>currentCycle = c, earningsList = cycle_earnings d c,
                    expenseList = cycle_expenses d c, st_archives = archives_list d\<rparr>), d)"
  by (simp add: get_app_state_def get_or_create_active)

lemma find_active_map_update:
  "find is_active cs = Some c \<Longrightarrow> is_active c' \<Longrightarrow> c_id c' = c_id c \<Longrightarrow>
   find is_active (map (\<lambda>r. if c_id r = c_id c' then c' else r) cs) = Some c'"
  by (induction cs) (auto split: if_splits)

lemma get_active_update_cycle:
  "get_active_cycle d = Some c \<Longrightarrow> is_active c' \<Longrightarrow> c_id c' = c_id c \<Longrightarrow>
   get_active_cycle (update_cycle c' d) = Some c'"
  using find_active_map_update[of "cycles d" c c']
  by (simp add: get_active_cycle_def update_cycle_def)

text \<open>The definitions that evaluate a concrete request on a concrete store.\<close>

lemmas eval_defs =
  start_cycle_def finalize_cycle_def add_earning_def edit_earning_def delete_earning_def
  add_expense_def delete_expense_def archive_period_def delete_archive_def get_archives_def
  update_cycle_fields_def reset_database_def get_app_state_def get_or_create_active_cycle_def
  get_active_cycle_def insert_cycle_def insert_earning_def insert_expense_def
  insert_archive_def update_cycle_def update_earning_def default_cycle_def empty_db_def
  get_def get_default_def has_key_def example_lib_def int_if_truthy_def
  Decimal_if_truthy_def parse_timestamp_def end_below_start_def find_earning_def
  find_expense_def cycle_earnings_def cycle_expenses_def archives_list_def
  archive_to_dict_def apply_fields_def and_then_def upd_gas_cost_def upd_fuel_price_def
  upd_start_km_def upd_end_km_def full_archive_payload_def partial_archive_payload_def
  total_other_expenses_def km_driven_def km_per_liter_def cost_per_km_def Let_def
  commit_fails_def Decimal_value_def caught_def conversion_failed_def
  add_earning_accepted_def fits_integer_def

lemma commit_fails_simps [simp]:
  "snd (commit_fails d) = d"
  "fst (commit_fails d) = (500, Error (Unhandled_exception DataError))"
  by (simp_all add: commit_fails_def)

text \<open>The arithmetic of the examples.\<close>

lemma Decimal_add_examples:
  "Decimal_add 0 20 = Inr 20"
  "Decimal_add 0 (- 5) = Inr (- 5)"
  "Decimal_add 0 (1 / 1000) = Inr (1 / 1000)"
  "Decimal_add 0 100000000 = Inr 100000000"
  by code_simp+

lemma round_cents_examples:
  "round_cents 20 = 20"
  "round_cents (- 5) = - 5"
  "round_cents (1 / 1000) = 0"
  by code_simp+

lemma fits_numeric_10_2_examples:
  "fits_numeric_10_2 20"
  "fits_numeric_10_2 (- 5)"
  "fits_numeric_10_2 (1 / 1000)"
  "\<not> fits_numeric_10_2 100000000"
  by code_simp+

lemmas eval_arith =
  Decimal_add_examples round_cents_examples fits_numeric_10_2_examples

lemma started_db_eq:
  "started_db =
     \<lparr>cycles = [\<lparr>c_id = 1, gas_cost = 50, start_km = Some 1000, end_km = None,
         fuel_price_per_liter = None, is_active = True, start_time = 1,
         cumulative_earnings = 0, cumulative_race_count = 0,
         current_period_earnings = 0, current_period_race_count = 0\<rparr>],
      earnings = [], expenses = [], archives = [], next_cycle_id = 2,
      next_earning_id = 1, next_expense_id = 1, next_archive_id = 1\<rparr>"
  by (simp add: started_db_def eval_defs)

section \<open>\<^verbatim>\<open>GET /api/state\<close> writes to the store\<close>

text \<open>
  C9. When no row of \<^verbatim>\<open>current_cycle\<close> is active (whether or not the table has inactive
  rows), serving \<^verbatim>\<open>GET /api/state\<close> commits one more row: a new cycle with the next key,
  inactive, with all four totals zero, and that row is the \<^verbatim>\<open>currentCycle\<close> of the
  response. Nothing else in the store changes.
\<close>

theorem get_state_inserts_cycle:
  assumes "\<forall>c\<in>set (cycles d). \<not> is_active c"
  shows "snd (handle L now GET_state d) =
           d\<lparr>cycles := cycles d @ [(default_cycle now)\<lparr>c_id := next_cycle_id d\<rparr>],
             next_cycle_id := Suc (next_cycle_id d)\<rparr>
         \<and> (\<exists>st. fst (handle L now GET_state d) = (200, State st)
                \<and> currentCycle st = (default_cycle now)\<lparr>c_id := next_cycle_id d\<rparr>)
         \<and> \<not> is_active ((default_cycle now)\<lparr>c_id := next_cycle_id d\<rparr>)
         \<and> cumulative_earnings ((default_cycle now)\<lparr>c_id := next_cycle_id d\<rparr>) = 0
         \<and> cumulative_race_count ((default_cycle now)\<lparr>c_id := next_cycle_id d\<rparr>) = 0
         \<and> current_period_earnings ((default_cycle now)\<lparr>c_id := next_cycle_id d\<rparr>) = 0
         \<and> current_period_race_count ((default_cycle now)\<lparr>c_id := next_cycle_id d\<rparr>) = 0"
proof -
  from assms have "get_active_cycle d = None"
    by (simp add: get_active_cycle_None)
  then have "get_app_state now d =
      ((200, State \<lparr>currentCycle = (default_cycle now)\<lparr>c_id := next_cycle_id d\<rparr>,
          earningsList = cycle_earnings (snd (insert_cycle (default_cycle now) d))
                           ((default_cycle now)\<lparr>c_id := next_cycle_id d\<rparr>),
          expenseList = cycle_expenses (snd (insert_cycle (default_cycle now) d))
                           ((default_cycle now)\<lparr>c_id := next_cycle_id d\<rparr>),
          st_archives = archives_list (snd (insert_cycle (default_cycle now) d))\<rparr>),
       snd (insert_cycle (default_cycle now) d))"
    by (simp add: get_app_state_def get_or_create_active_cycle_def insert_cycle_def Let_def)
  then show ?thesis
    by (simp add: insert_cycle_def Let_def default_cycle_def)
qed

text \<open>
  An instance: the store holds one inactive cycle (left by an earlier \<^verbatim>\<open>GET /api/state\<close> on
  the empty store); the next \<^verbatim>\<open>GET /api/state\<close> leaves two rows, with keys 1 and 2.
\<close>

theorem get_state_inserts_cycle_witness:
  "filter is_active (cycles (snd (handle example_lib 5 GET_state empty_db))) = []
   \<and> map c_id (cycles (snd (handle example_lib 5 GET_state empty_db))) = [1]
   \<and> map c_id (cycles (snd (handle example_lib 6 GET_state
                               (snd (handle example_lib 5 GET_state empty_db))))) = [1, 2]"
proof -
  have d0: "snd (handle example_lib 5 GET_state empty_db) =
      empty_db\<lparr>cycles := [(default_cycle 5)\<lparr>c_id := 1\<rparr>], next_cycle_id := 2\<rparr>"
    by (simp add: get_app_state_def get_or_create_active_cycle_def get_active_cycle_def
        insert_cycle_def empty_db_def Let_def)
  have h: "\<forall>c\<in>set (cycles (snd (handle example_lib 5 GET_state empty_db))). \<not> is_active c"
    unfolding d0 by (simp add: default_cycle_def)
  show ?thesis
    using get_state_inserts_cycle [OF h, of example_lib 6] h
    unfolding d0 by (simp add: default_cycle_def)
qed

section \<open>\<^verbatim>\<open>get_or_create_active_cycle\<close> called twice\<close>

text \<open>
  C5. On the empty store, two calls of \<^verbatim>\<open>get_or_create_active_cycle\<close> in a row return
  cycles with different keys (1, then 2): the cycle created by the first call is inactive,
  so the second call does not find it and creates another.
\<close>

theorem get_or_create_twice_differs:
  "c_id (fst (get_or_create_active_cycle 5 empty_db)) = 1
   \<and> c_id (fst (get_or_create_active_cycle 6 (snd (get_or_create_active_cycle 5 empty_db)))) = 2"
  by (simp add: get_or_create_active_cycle_def get_active_cycle_def insert_cycle_def
      empty_db_def default_cycle_def Let_def)

section \<open>At most one active cycle\<close>

text \<open>
  Every handler keeps the keys of the cycles distinct and leaves at most one of them
  active: a handler changes only the row it got from \<^verbatim>\<open>get_active_cycle\<close>, and inserts
  an active row only after deactivating that one.
\<close>

lemma keys_fresh_cong:
  "map c_id (cycles d') = map c_id (cycles d) \<Longrightarrow> next_cycle_id d' = next_cycle_id d \<Longrightarrow>
   keys_fresh d' = keys_fresh d"
  by (simp add: keys_fresh_def)

lemma cycles_ok_cong:
  "cycles d' = cycles d \<Longrightarrow> next_cycle_id d' = next_cycle_id d \<Longrightarrow> cycles_ok d' = cycles_ok d"
  by (simp add: cycles_ok_def keys_fresh_def at_most_one_active_def)

lemma cycles_ok_empty: "cycles_ok empty_db"
  by (simp add: cycles_ok_def keys_fresh_def at_most_one_active_def empty_db_def)

lemma filter_active_none:
  "find is_active cs = None \<Longrightarrow> filter is_active cs = []"
  by (induction cs) (auto split: if_splits)

lemma cycles_ok_insert_inactive:
  "cycles_ok d \<Longrightarrow> \<not> is_active c \<Longrightarrow> cycles_ok (snd (insert_cycle c d))"
  by (auto simp: cycles_ok_def keys_fresh_def at_most_one_active_def insert_cycle_def Let_def
      list_all_iff less_Suc_eq)

lemma cycles_ok_insert_none_active:
  "cycles_ok d \<Longrightarrow> get_active_cycle d = None \<Longrightarrow> cycles_ok (snd (insert_cycle c d))"
  by (auto simp: cycles_ok_def keys_fresh_def at_most_one_active_def insert_cycle_def Let_def
      list_all_iff less_Suc_eq get_active_cycle_def filter_active_none)

lemma map_update_keys:
  "c_id c' = k \<Longrightarrow> map c_id (map (\<lambda>r. if c_id r = k then c' else r) cs) = map c_id cs"
  by (induction cs) auto

lemma filter_active_update_le:
  "find is_active cs = Some c \<Longrightarrow> c_id c' = c_id c \<Longrightarrow> distinct (map c_id cs) \<Longrightarrow>
   length (filter is_active (map (\<lambda>r. if c_id r = c_id c' then c' else r) cs))
     \<le> length (filter is_active cs)"
proof (induction cs)
  case Nil
  then show ?case by simp
next
  case (Cons r cs)
  show ?case
  proof (cases "is_active r")
    case True
    with Cons.prems have rc: "r = c" by simp
    have "c_id c \<notin> c_id ` set cs" using Cons.prems(3) rc by simp
    then have "\<forall>x\<in>set cs. c_id x \<noteq> c_id c'" using Cons.prems(2) by (metis imageI)
    then have "map (\<lambda>r. if c_id r = c_id c' then c' else r) cs = cs"
      by (induction cs) auto
    then show ?thesis using True rc Cons.prems by simp
  next
    case False
    with Cons.prems have f: "find is_active cs = Some c" by simp
    have "c \<in> set cs" using f by (auto simp: find_Some_iff)
    then have "c_id r \<noteq> c_id c'" using Cons.prems by force
    then show ?thesis using Cons.IH[OF f] Cons.prems False by simp
  qed
qed

lemma cycles_ok_update:
  assumes "cycles_ok d" and "get_active_cycle d = Some c" and "c_id c' = c_id c"
  shows "cycles_ok (update_cycle c' d)"
proof -
  have "length (filter is_active (cycles (update_cycle c' d))) \<le> length (filter is_active (cycles d))"
    using assms filter_active_update_le[of "cycles d" c c']
    by (simp add: update_cycle_def get_active_cycle_def cycles_ok_def keys_fresh_def)
  moreover have "map c_id (cycles (update_cycle c' d)) = map c_id (cycles d)"
    by (simp add: update_cycle_def map_update_keys)
  then have "keys_fresh (update_cycle c' d) = keys_fresh d"
    by (rule keys_fresh_cong) (simp add: update_cycle_def)
  ultimately show ?thesis using assms(1) by (simp add: cycles_ok_def at_most_one_active_def)
qed

lemma filter_active_deactivate:
  "find is_active cs = Some c \<Longrightarrow> c_id c' = c_id c \<Longrightarrow> \<not> is_active c' \<Longrightarrow>
   distinct (map c_id cs) \<Longrightarrow> length (filter is_active cs) \<le> 1 \<Longrightarrow>
   find is_active (map (\<lambda>r. if c_id r = c_id c' then c' else r) cs) = None"
proof (induction cs)
  case Nil
  then show ?case by simp
next
  case (Cons r cs)
  show ?case
  proof (cases "is_active r")
    case True
    with Cons.prems have rc: "r = c" by simp
    have "filter is_active cs = []" using Cons.prems True by simp
    then have "\<forall>x\<in>set cs. \<not> is_active x" by (simp add: filter_empty_conv)
    then have "find is_active (map (\<lambda>r. if c_id r = c_id c' then c' else r) cs) = None"
      using Cons.prems by (auto simp: find_None_iff)
    then show ?thesis using rc Cons.prems by simp
  next
    case False
    with Cons.prems have f: "find is_active cs = Some c" by simp
    show ?thesis using Cons.IH[OF f] Cons.prems False by simp
  qed
qed

lemma get_active_deactivate:
  assumes "cycles_ok d" and "get_active_cycle d = Some c" and "c_id c' = c_id c"
    and "\<not> is_active c'"
  shows "get_active_cycle (update_cycle c' d) = None"
  using assms filter_active_deactivate[of "cycles d" c c']
  by (simp add: get_active_cycle_def update_cycle_def cycles_ok_def keys_fresh_def
      at_most_one_active_def)

lemma cycles_ok_get_or_create:
  "cycles_ok d \<Longrightarrow> cycles_ok (snd (get_or_create_active_cycle now d))"
  by (simp add: get_or_create_active_cycle_def cycles_ok_insert_inactive default_cycle_def
      split: option.splits)

lemma snd_get_app_state:
  "snd (get_app_state now d) = snd (get_or_create_active_cycle now d)"
  by (simp add: get_app_state_def split_beta Let_def)

lemma cycles_ok_get_app_state:
  "cycles_ok d \<Longrightarrow> cycles_ok (snd (get_app_state now d))"
  by (simp add: snd_get_app_state cycles_ok_get_or_create)


lemma other_tables_cycles [simp]:
  "cycles (insert_earning e d) = cycles d"
  "cycles (insert_expense x d) = cycles d"
  "cycles (insert_archive a d) = cycles d"
  "cycles (update_earning e d) = cycles d"
  "next_cycle_id (insert_earning e d) = next_cycle_id d"
  "next_cycle_id (insert_expense x d) = next_cycle_id d"
  "next_cycle_id (insert_archive a d) = next_cycle_id d"
  "next_cycle_id (update_earning e d) = next_cycle_id d"
  by (simp_all add: insert_earning_def insert_expense_def insert_archive_def update_earning_def)

lemma cycles_ok_other_tables [simp]:
  "cycles_ok (insert_earning e d) = cycles_ok d"
  "cycles_ok (insert_expense x d) = cycles_ok d"
  "cycles_ok (insert_archive a d) = cycles_ok d"
  "cycles_ok (update_earning e d) = cycles_ok d"
  "cycles_ok (d\<lparr>earnings := es\<rparr>) = cycles_ok d"
  "cycles_ok (d\<lparr>expenses := xs\<rparr>) = cycles_ok d"
  "cycles_ok (d\<lparr>archives := as\<rparr>) = cycles_ok d"
  by (rule cycles_ok_cong; simp)+

lemma get_active_other_tables [simp]:
  "get_active_cycle (insert_earning e d) = get_active_cycle d"
  "get_active_cycle (insert_expense x d) = get_active_cycle d"
  "get_active_cycle (insert_archive a d) = get_active_cycle d"
  "get_active_cycle (update_earning e d) = get_active_cycle d"
  "get_active_cycle (d\<lparr>earnings := es\<rparr>) = get_active_cycle d"
  "get_active_cycle (d\<lparr>expenses := xs\<rparr>) = get_active_cycle d"
  "get_active_cycle (d\<lparr>archives := as\<rparr>) = get_active_cycle d"
  by (simp_all add: get_active_cycle_def)

lemma cycles_ok_add_earning:
  "cycles_ok d \<Longrightarrow> cycles_ok (snd (add_earning L now data d))"
  unfolding add_earning_def
  by (auto simp: Let_def split: option.splits sum.splits nonfinite.splits
      intro!: cycles_ok_get_app_state cycles_ok_update)

lemma cycles_ok_edit_earning:
  "cycles_ok d \<Longrightarrow> cycles_ok (snd (edit_earning L now i data d))"
  unfolding edit_earning_def
  by (auto simp: Let_def split: option.splits sum.splits no_number.splits nonfinite.splits
      intro!: cycles_ok_get_app_state cycles_ok_update)

lemma cycles_ok_delete_earning:
  "cycles_ok d \<Longrightarrow> cycles_ok (snd (delete_earning now i d))"
  unfolding delete_earning_def
  by (auto simp: Let_def split: option.splits sum.splits
      intro!: cycles_ok_get_app_state cycles_ok_update)

lemma cycles_ok_add_expense:
  "cycles_ok d \<Longrightarrow> cycles_ok (snd (add_expense L now data d))"
  unfolding add_expense_def
  by (auto simp: Let_def split_beta
      split: option.splits sum.splits no_number.splits nonfinite.splits
      intro!: cycles_ok_get_app_state cycles_ok_update)

lemma cycles_ok_delete_expense:
  "cycles_ok d \<Longrightarrow> cycles_ok (snd (delete_expense now i d))"
  unfolding delete_expense_def
  by (auto simp: Let_def split: option.splits sum.splits
      intro!: cycles_ok_get_app_state cycles_ok_update)

lemma cycles_ok_archive_period:
  "cycles_ok d \<Longrightarrow> cycles_ok (snd (archive_period now data d))"
  unfolding archive_period_def
  by (auto simp: Let_def split: option.splits sum.splits
      intro!: cycles_ok_get_app_state cycles_ok_update)

lemma cycles_ok_delete_archive:
  "cycles_ok d \<Longrightarrow> cycles_ok (snd (delete_archive i d))"
  unfolding delete_archive_def
  by (auto simp: Let_def split: option.splits sum.splits)

lemma cycles_ok_finalize:
  "cycles_ok d \<Longrightarrow> cycles_ok (snd (finalize_cycle L now data d))"
  unfolding finalize_cycle_def
  by (auto simp: Let_def split: option.splits sum.splits
      intro!: cycles_ok_get_app_state cycles_ok_update)

lemma upd_steps_key:
  "upd_gas_cost L data cu = Inr cu' \<Longrightarrow> c_id (fst cu') = c_id (fst cu)"
  "upd_fuel_price L data cu = Inr cu' \<Longrightarrow> c_id (fst cu') = c_id (fst cu)"
  "upd_start_km L data cu = Inr cu' \<Longrightarrow> c_id (fst cu') = c_id (fst cu)"
  "upd_end_km L data cu = Inr cu' \<Longrightarrow> c_id (fst cu') = c_id (fst cu)"
  by (auto simp: upd_gas_cost_def upd_fuel_price_def upd_start_km_def upd_end_km_def
      split: sum.splits if_splits option.splits no_number.splits)

lemma and_then_Inr:
  "and_then r f = Inr y \<Longrightarrow> \<exists>x. r = Inr x \<and> f x = Inr y"
  by (cases r) (simp_all add: and_then_def)

lemma apply_fields_key:
  assumes "apply_fields L data c = Inr (a, b)"
  shows "c_id a = c_id c"
proof -
  from assms obtain x3 where 3: "upd_end_km L data x3 = Inr (a, b)"
    and r3: "and_then (and_then (upd_gas_cost L data (c, False, False)) (upd_fuel_price L data))
               (upd_start_km L data) = Inr x3"
    unfolding apply_fields_def by (blast dest: and_then_Inr)
  from r3 obtain x2 where 2: "upd_start_km L data x2 = Inr x3"
    and r2: "and_then (upd_gas_cost L data (c, False, False)) (upd_fuel_price L data) = Inr x2"
    by (blast dest: and_then_Inr)
  from r2 obtain x1 where 1: "upd_fuel_price L data x1 = Inr x2"
    and r1: "upd_gas_cost L data (c, False, False) = Inr x1"
    by (blast dest: and_then_Inr)
  from upd_steps_key(1)[OF r1] upd_steps_key(2)[OF 1] upd_steps_key(3)[OF 2]
    upd_steps_key(4)[OF 3]
  show ?thesis by simp
qed

lemma cycles_ok_update_fields:
  "cycles_ok d \<Longrightarrow> cycles_ok (snd (update_cycle_fields L now data d))"
  unfolding update_cycle_fields_def
  by (auto simp: Let_def apply_fields_key split: option.splits sum.splits
      intro!: cycles_ok_get_app_state cycles_ok_update)

lemma cycles_ok_reset:
  "cycles_ok d \<Longrightarrow> cycles_ok (snd (reset_database now d))"
proof -
  have "cycles_ok (d\<lparr>earnings := [], expenses := [], archives := [], cycles := []\<rparr>)"
    by (simp add: cycles_ok_def keys_fresh_def at_most_one_active_def)
  then show ?thesis
    by (simp add: reset_database_def Let_def split_beta cycles_ok_get_or_create)
qed

lemma cycles_ok_start:
  assumes "cycles_ok d"
  shows "cycles_ok (snd (start_cycle L now data d))"
proof -
  have "cycles_ok (snd (insert_cycle c
          (case get_active_cycle d of
             Some existing_active \<Rightarrow> update_cycle (existing_active\<lparr>is_active := False\<rparr>) d
           | None \<Rightarrow> d)))" for c
  proof (cases "get_active_cycle d")
    case None
    then show ?thesis using assms by (simp add: cycles_ok_insert_none_active)
  next
    case (Some a)
    have "cycles_ok (update_cycle (a\<lparr>is_active := False\<rparr>) d)"
      using assms Some by (simp add: cycles_ok_update)
    moreover have "get_active_cycle (update_cycle (a\<lparr>is_active := False\<rparr>) d) = None"
      using assms Some by (simp add: get_active_deactivate)
    ultimately show ?thesis using Some by (simp add: cycles_ok_insert_none_active)
  qed
  then show ?thesis using assms
    by (simp add: start_cycle_def Let_def split_beta
        split: sum.splits no_number.splits nonfinite.splits)
qed

lemma cycles_ok_handle:
  "cycles_ok d \<Longrightarrow> cycles_ok (snd (handle L now r d))"
  by (cases r)
     (simp_all add: cycles_ok_get_app_state cycles_ok_start cycles_ok_finalize
        cycles_ok_update_fields cycles_ok_add_earning cycles_ok_edit_earning
        cycles_ok_delete_earning cycles_ok_add_expense cycles_ok_delete_expense
        cycles_ok_archive_period cycles_ok_delete_archive cycles_ok_reset get_archives_def)

lemma cycles_ok_run:
  "cycles_ok d \<Longrightarrow> cycles_ok (run L rs d)"
  by (induction rs arbitrary: d) (simp_all add: cycles_ok_handle)

lemma filter_active_get_or_create:
  "filter is_active (cycles (snd (get_or_create_active_cycle now d))) =
   filter is_active (cycles d)"
  by (simp add: get_or_create_active_cycle_def insert_cycle_def default_cycle_def Let_def
      split: option.splits)

lemma start_cycle_created:
  assumes "fst (start_cycle L now data d) = (201, Cycle nc)"
  shows "is_active nc \<and>
         cycles (snd (start_cycle L now data d)) =
           cycles (case get_active_cycle d of
                     Some existing_active \<Rightarrow>
                       update_cycle (existing_active\<lparr>is_active := False\<rparr>) d
                   | None \<Rightarrow> d) @ [nc]"
  using assms
  by (auto simp: start_cycle_def insert_cycle_def Let_def commit_fails_def
      split: if_splits sum.splits no_number.splits nonfinite.splits)

lemma start_cycle_only_active:
  assumes "cycles_ok d" and "fst (start_cycle L now data d) = (201, Cycle nc)"
  shows "filter is_active (cycles (snd (start_cycle L now data d))) = [nc]"
proof -
  let ?d1 = "case get_active_cycle d of
               Some existing_active \<Rightarrow> update_cycle (existing_active\<lparr>is_active := False\<rparr>) d
             | None \<Rightarrow> d"
  have "get_active_cycle ?d1 = None"
    using assms(1) by (auto simp: get_active_deactivate split: option.splits)
  then have "filter is_active (cycles ?d1) = []"
    by (simp add: get_active_cycle_def filter_active_none)
  then show ?thesis using start_cycle_created [OF assms(2)] by simp
qed

text \<open>
  C1. After any sequence of requests to the API, served from the empty store, at most one
  cycle is active. \<^verbatim>\<open>get_or_create_active_cycle\<close> never changes which rows are active (the
  row it creates is inactive), and after a successful \<^verbatim>\<open>start_cycle\<close> the new cycle is
  the only active one: the cycle that was active before has been deactivated.
\<close>

theorem at_most_one_active_always:
  "at_most_one_active (run L rs empty_db)
   \<and> filter is_active (cycles (snd (get_or_create_active_cycle now d))) =
       filter is_active (cycles d)
   \<and> (fst (start_cycle L now data (run L rs empty_db)) = (201, Cycle nc) \<longrightarrow>
        filter is_active (cycles (snd (start_cycle L now data (run L rs empty_db)))) = [nc])"
proof -
  have ok: "cycles_ok (run L rs empty_db)"
    by (rule cycles_ok_run) (rule cycles_ok_empty)
  then show ?thesis
    by (simp add: cycles_ok_def filter_active_get_or_create start_cycle_only_active)
qed

text \<open>
  An instance: a cycle is started twice in a row, then a third time. After the second
  start only cycle 2 is active; after the third only cycle 3.
\<close>

theorem at_most_one_active_always_witness:
  "map c_id (filter is_active (cycles (run example_lib
       [(1, POST_cycles_start [(''gas_cost'', JStr ''50.00''), (''start_km'', JStr ''1000'')]),
        (2, POST_cycles_start [(''gas_cost'', JInt 20)])] empty_db))) = [2]
   \<and> at_most_one_active (run example_lib
       [(1, POST_cycles_start [(''gas_cost'', JStr ''50.00''), (''start_km'', JStr ''1000'')]),
        (2, POST_cycles_start [(''gas_cost'', JInt 20)])] empty_db)
   \<and> map c_id (filter is_active (cycles (snd (start_cycle example_lib 3
       [(''gas_cost'', JInt 30)] (run example_lib
       [(1, POST_cycles_start [(''gas_cost'', JStr ''50.00''), (''start_km'', JStr ''1000'')]),
        (2, POST_cycles_start [(''gas_cost'', JInt 20)])] empty_db))))) = [3]"
proof -
  let ?rs = "[(1, POST_cycles_start [(''gas_cost'', JStr ''50.00''), (''start_km'', JStr ''1000'')]),
        (2, POST_cycles_start [(''gas_cost'', JInt 20)])]"
  let ?nc = "\<lparr>c_id = 3, gas_cost = 30, start_km = None, end_km = None,
       fuel_price_per_liter = None, is_active = True, start_time = 3,
       cumulative_earnings = 0, cumulative_race_count = 0,
       current_period_earnings = 0, current_period_race_count = 0\<rparr>"
  have r: "run example_lib ?rs empty_db =
    \<lparr>cycles =
      [\<lparr>c_id = 1, gas_cost = 50, start_km = Some 1000, end_km = None,
         fuel_price_per_liter = None, is_active = False, start_time = 1,
         cumulative_earnings = 0, cumulative_race_count = 0,
         current_period_earnings = 0, current_period_race_count = 0\<rparr>,
       \<lparr>c_id = 2, gas_cost = 20, start_km = None, end_km = None,
         fuel_price_per_liter = None, is_active = True, start_time = 2,
         cumulative_earnings = 0, cumulative_race_count = 0,
         current_period_earnings = 0, current_period_race_count = 0\<rparr>],
     earnings = [], expenses = [], archives = [], next_cycle_id = 3,
     next_earning_id = 1, next_expense_id = 1, next_archive_id = 1\<rparr>"
    by (simp add: eval_defs)
  have s: "fst (start_cycle example_lib 3 [(''gas_cost'', JInt 30)]
             (run example_lib ?rs empty_db)) = (201, Cycle ?nc)"
    unfolding r by (simp add: eval_defs)
  from at_most_one_active_always [where L = example_lib and rs = ?rs and now = 3
      and d = empty_db and data = "[(''gas_cost'', JInt 30)]" and nc = ?nc] s
  have "at_most_one_active (run example_lib ?rs empty_db)"
    and "filter is_active (cycles (snd (start_cycle example_lib 3 [(''gas_cost'', JInt 30)]
           (run example_lib ?rs empty_db)))) = [?nc]"
    by simp_all
  moreover have "map c_id (filter is_active (cycles (run example_lib ?rs empty_db))) = [2]"
    unfolding r by simp
  ultimately show ?thesis by simp
qed

section \<open>What \<^verbatim>\<open>get_app_state\<close> leaves alone\<close>

lemma has_key_nonempty: "has_key data k \<Longrightarrow> data \<noteq> []"
  by (auto simp: has_key_def)

lemma get_app_state_status [simp]: "fst (fst (get_app_state now d)) = 200"
  by (simp add: get_app_state_def split_beta Let_def)

lemma get_app_state_tables [simp]:
  "earnings (snd (get_app_state now d)) = earnings d"
  "expenses (snd (get_app_state now d)) = expenses d"
  "archives (snd (get_app_state now d)) = archives d"
  by (simp_all add: get_app_state_def get_or_create_active_cycle_def insert_cycle_def
      split_beta Let_def split: option.splits)

lemma get_app_state_cycles:
  "cycles (snd (get_app_state now d)) =
     (case get_active_cycle d of
        Some c \<Rightarrow> cycles d
      | None \<Rightarrow> cycles d @ [(default_cycle now)\<lparr>c_id := next_cycle_id d\<rparr>])"
  by (simp add: get_app_state_def get_or_create_active_cycle_def insert_cycle_def
      split_beta Let_def split: option.splits)

lemma tables_update_cycle [simp]:
  "archives (update_cycle c d) = archives d"
  "expenses (update_cycle c d) = expenses d"
  "earnings (update_cycle c d) = earnings d"
  by (simp_all add: update_cycle_def)

section \<open>Decimal addition and rounding on amounts in cents\<close>

text \<open>
  \<open>ndigits n\<close> is the number of decimal digits of a positive \<open>n\<close>, and \<open>adjusted x\<close> the
  exponent of the leading digit of \<open>x\<close>. On amounts with at most two digits after the
  point and fewer than 27 digits in all, the Decimal addition is the exact sum, and the
  rounding of a \<^verbatim>\<open>Numeric(10, 2)\<close> column changes nothing.
\<close>

lemma ndigits_pos: "1 \<le> ndigits n"
  by (induction n rule: ndigits.induct) (subst ndigits.simps, auto)

lemma ndigits_bounds:
  "1 \<le> n \<Longrightarrow> 10 ^ nat (ndigits n - 1) \<le> n \<and> n < 10 ^ nat (ndigits n)"
proof (induction n rule: ndigits.induct)
  case (1 n)
  show ?case
  proof (cases "n < 10")
    case True
    then show ?thesis using 1(2) by (subst (1 2) ndigits.simps) simp
  next
    case False
    then have ge: "1 \<le> n div 10" by simp
    from 1(1)[OF False ge] have
      lo: "10 ^ nat (ndigits (n div 10) - 1) \<le> n div 10" and
      hi: "n div 10 < 10 ^ nat (ndigits (n div 10))" by simp_all
    have nd: "ndigits n = 1 + ndigits (n div 10)"
      using False by (subst ndigits.simps) simp
    have p: "1 \<le> ndigits (n div 10)" by (rule ndigits_pos)
    have a: "nat (ndigits n - 1) = Suc (nat (ndigits (n div 10) - 1))"
      using nd p by simp
    have b: "nat (ndigits n) = Suc (nat (ndigits (n div 10)))"
      using nd p by simp
    have "10 * 10 ^ nat (ndigits (n div 10) - 1) \<le> n" using lo by arith
    moreover have "n < 10 * 10 ^ nat (ndigits (n div 10))" using hi by arith
    ultimately show ?thesis unfolding a b by simp
  qed
qed

lemma adjusted_bounds:
  assumes "x \<noteq> 0"
  shows "10 powi adjusted x \<le> \<bar>x\<bar> \<and> \<bar>x\<bar> < 10 powi (adjusted x + 1)"
proof -
  obtain p q where pq: "quotient_of x = (p, q)" by (cases "quotient_of x")
  have q: "0 < q" using pq by (rule quotient_of_denom_pos)
  have x: "x = of_int p / of_int q" using pq by (rule quotient_of_div)
  have p: "1 \<le> \<bar>p\<bar>" using assms x by (cases "p = 0") auto
  have ax: "\<bar>x\<bar> = of_int \<bar>p\<bar> / of_int q" using q x by simp
  define a where "a = ndigits \<bar>p\<bar>"
  define b where "b = ndigits q"
  have a1: "1 \<le> a" and b1: "1 \<le> b" by (simp_all add: a_def b_def ndigits_pos)
  from ndigits_bounds[OF p] have
    plo: "10 ^ nat (a - 1) \<le> \<bar>p\<bar>" and phi: "\<bar>p\<bar> < 10 ^ nat a" by (simp_all add: a_def)
  from ndigits_bounds[of q] q have
    qlo: "10 ^ nat (b - 1) \<le> q" and qhi: "q < 10 ^ nat b" by (simp_all add: b_def)
  have plo': "(10::rat) powi (a - 1) \<le> of_int \<bar>p\<bar>"
  proof -
    have "(10::rat) powi (a - 1) = of_int (10 ^ nat (a - 1))"
      using a1 by (simp add: power_int_def)
    also have "\<dots> \<le> of_int \<bar>p\<bar>" using plo by (simp only: of_int_le_iff)
    finally show ?thesis .
  qed
  have phi': "of_int \<bar>p\<bar> < (10::rat) powi a"
  proof -
    have "(10::rat) powi a = of_int (10 ^ nat a)"
      using a1 by (simp add: power_int_def)
    moreover have "(of_int \<bar>p\<bar> :: rat) < of_int (10 ^ nat a)" using phi by (simp only: of_int_less_iff)
    ultimately show ?thesis by simp
  qed
  have qlo': "(10::rat) powi (b - 1) \<le> of_int q"
  proof -
    have "(10::rat) powi (b - 1) = of_int (10 ^ nat (b - 1))"
      using b1 by (simp add: power_int_def)
    also have "\<dots> \<le> of_int q" using qlo by (simp only: of_int_le_iff)
    finally show ?thesis .
  qed
  have qhi': "of_int q < (10::rat) powi b"
  proof -
    have "(10::rat) powi b = of_int (10 ^ nat b)"
      using b1 by (simp add: power_int_def)
    moreover have "(of_int q :: rat) < of_int (10 ^ nat b)" using qhi by (simp only: of_int_less_iff)
    ultimately show ?thesis by simp
  qed
  have qpos: "(0::rat) < of_int q" using q by simp
  have upper: "\<bar>x\<bar> < 10 powi (a - b + 1)"
  proof -
    have "\<bar>x\<bar> * 10 powi (b - 1) \<le> \<bar>x\<bar> * of_int q"
      using qlo' by (intro mult_left_mono) simp_all
    also have "\<dots> = of_int \<bar>p\<bar>" using qpos by (simp add: ax)
    also have "\<dots> < 10 powi a" by (rule phi')
    finally have "\<bar>x\<bar> * 10 powi (b - 1) < 10 powi a" .
    then have "\<bar>x\<bar> < 10 powi a / 10 powi (b - 1)"
      by (simp add: pos_less_divide_eq)
    also have "\<dots> = 10 powi (a - b + 1)"
      by (simp add: power_int_diff [symmetric] algebra_simps)
    finally show ?thesis .
  qed
  have lower: "10 powi (a - b - 1) < \<bar>x\<bar>"
  proof -
    have "(10::rat) powi (a - 1) \<le> of_int \<bar>p\<bar>" by (rule plo')
    also have "\<dots> = \<bar>x\<bar> * of_int q" using qpos by (simp add: ax)
    also have "\<dots> < \<bar>x\<bar> * 10 powi b"
      using qhi' assms by (intro mult_strict_left_mono) simp_all
    finally have "(10::rat) powi (a - 1) < \<bar>x\<bar> * 10 powi b" .
    then have "10 powi (a - 1) / 10 powi b < \<bar>x\<bar>"
      by (simp add: pos_divide_less_eq)
    moreover have "(10::rat) powi (a - 1) / 10 powi b = 10 powi (a - b - 1)"
      by (simp add: power_int_diff [symmetric] algebra_simps)
    ultimately show ?thesis by simp
  qed
  have adj: "adjusted x = (if 10 powi (a - b) \<le> \<bar>x\<bar> then a - b else a - b - 1)"
    by (simp add: adjusted_def pq a_def b_def Let_def)
  show ?thesis
  proof (cases "10 powi (a - b) \<le> \<bar>x\<bar>")
    case True
    then show ?thesis using upper by (simp add: adj)
  next
    case False
    then show ?thesis using lower by (simp add: adj)
  qed
qed

lemma two_placesE:
  assumes "two_places x"
  obtains k where "x = of_int k / 100"
proof
  have e: "of_int \<lfloor>x * 100\<rfloor> = x * 100" using assms unfolding two_places_def .
  show "x = of_int \<lfloor>x * 100\<rfloor> / 100" unfolding e by simp
qed

lemma two_places_of_int_div: "two_places (of_int k / 100)"
  by (simp add: two_places_def)

lemma two_places_add: "two_places x \<Longrightarrow> two_places y \<Longrightarrow> two_places (x + y)"
proof -
  assume "two_places x" "two_places y"
  then obtain k l where "x = of_int k / 100" "y = of_int l / 100"
    by (auto elim!: two_placesE)
  then have "x + y = of_int (k + l) / 100" by simp
  then show ?thesis by (simp only: two_places_of_int_div)
qed

lemma round_half_even_of_int: "round_half_even (of_int m) = m"
  by (simp add: round_half_even_def)

lemma round_cents_exact:
  assumes "two_places x"
  shows "round_cents x = x"
proof -
  from assms obtain k where x: "x = of_int k / 100" by (rule two_placesE)
  have "\<bar>x\<bar> * 100 = of_int \<bar>k\<bar>" by (simp add: x)
  then have "\<lfloor>\<bar>x\<bar> * 100 + 1 / 2\<rfloor> = \<bar>k\<bar>" by (simp only:) linarith
  then have "round_cents x = sgn x * of_int \<bar>k\<bar> / 100" by (simp add: round_cents_def)
  also have "\<dots> = sgn x * \<bar>x\<bar>" by (simp add: x)
  also have "\<dots> = x" by (rule sgn_mult_abs)
  finally show ?thesis .
qed

lemma Decimal_add_exact:
  assumes "two_places x" and "two_places y" and "\<bar>x + y\<bar> < 10 ^ 26"
  shows "Decimal_add x y = Inr (x + y)"
proof (cases "x + y = 0")
  case True
  then show ?thesis by (simp add: Decimal_add_def)
next
  case False
  define s where "s = x + y"
  have s0: "s \<noteq> 0" using False by (simp add: s_def)
  have "two_places s" unfolding s_def using assms(1,2) by (rule two_places_add)
  then obtain k where k: "s = of_int k / 100" by (rule two_placesE)
  have k0: "k \<noteq> 0" using s0 k by auto
  from adjusted_bounds[OF s0] have
    lo: "10 powi adjusted s \<le> \<bar>s\<bar>" and hi: "\<bar>s\<bar> < 10 powi (adjusted s + 1)" by simp_all
  have "(10::rat) powi adjusted s < 10 powi 26"
    using lo assms(3) by (simp add: s_def)
  then have a_hi: "adjusted s < 26"
    by (rule power_int_le_imp_less_exp [rotated]) simp_all
  have "1 \<le> \<bar>k\<bar>" using k0 by simp
  then have "(1::rat) \<le> of_int \<bar>k\<bar>" by (simp only: of_int_1_le_iff)
  then have "(10::rat) powi (- 2) \<le> \<bar>s\<bar>" by (simp add: k power_int_minus)
  then have "(10::rat) powi (- 2) < 10 powi (adjusted s + 1)" using hi by simp
  then have lt: "(10::rat) powi (- 2) < 10 powi (adjusted s + 1)" .
  have a_lo: "- 3 < adjusted s"
  proof (rule ccontr)
    assume "\<not> - 3 < adjusted s"
    then have "adjusted s + 1 \<le> - 2" by simp
    then have "(10::rat) powi (adjusted s + 1) \<le> 10 powi (- 2)"
      by (rule power_int_increasing) simp
    with lt show False by linarith
  qed
  define n where "n = nat (25 - adjusted s)"
  have q: "max (adjusted s - 27) (- 1000026) = - 2 - int n"
    using a_lo a_hi by (simp add: n_def)
  have pw: "(10::rat) powi (- 2 - int n) = 1 / (100 * 10 ^ n)"
    by (simp add: power_int_diff power_int_minus field_simps)
  have quot: "s / 10 powi (- 2 - int n) = of_int (k * 10 ^ n)"
    by (simp add: pw k)
  have z: "of_int (round_half_even (s / 10 powi (- 2 - int n))) * 10 powi (- 2 - int n) = s"
    unfolding quot round_half_even_of_int by (simp add: pw k)
  have "Decimal_add x y = Inr s"
    unfolding Decimal_add_def Let_def s_def [symmetric] q z
    using s0 a_hi by simp
  then show ?thesis by (simp add: s_def)
qed

section \<open>Adding an earning\<close>

text \<open>
  C3, as the specification states it, fails: the row and the totals are
  \<^verbatim>\<open>Numeric(10, 2)\<close> columns. On the started cycle (all totals zero), \<^verbatim>\<open>POST /api/earnings\<close>
  with \<^verbatim>\<open>amount = "0.001"\<close> and \<^verbatim>\<open>new_period_total = "0.001"\<close> answers 200, creates a row
  with amount 0 (not 0.001), leaves \<^verbatim>\<open>cumulative_earnings\<close> and \<^verbatim>\<open>current_period_earnings\<close>
  at 0, and still counts a race in both counters. With \<^verbatim>\<open>amount = "100000000"\<close> the commit
  is refused: status 500, and neither a row nor a total is written.
\<close>

theorem add_earning_rounds_counterexample:
  "to_Decimal example_lib (JStr ''0.001'') = Inr (1 / 1000)
   \<and> fst (fst (handle example_lib 2
       (POST_earnings [(''amount'', JStr ''0.001''), (''new_period_total'', JStr ''0.001'')])
       started_db)) = 200
   \<and> map e_amount (earnings (snd (handle example_lib 2
       (POST_earnings [(''amount'', JStr ''0.001''), (''new_period_total'', JStr ''0.001'')])
       started_db))) = [0]
   \<and> map cumulative_earnings (cycles (snd (handle example_lib 2
       (POST_earnings [(''amount'', JStr ''0.001''), (''new_period_total'', JStr ''0.001'')])
       started_db))) = [0]
   \<and> map current_period_earnings (cycles (snd (handle example_lib 2
       (POST_earnings [(''amount'', JStr ''0.001''), (''new_period_total'', JStr ''0.001'')])
       started_db))) = [0]
   \<and> map cumulative_race_count (cycles (snd (handle example_lib 2
       (POST_earnings [(''amount'', JStr ''0.001''), (''new_period_total'', JStr ''0.001'')])
       started_db))) = [1]
   \<and> map current_period_race_count (cycles (snd (handle example_lib 2
       (POST_earnings [(''amount'', JStr ''0.001''), (''new_period_total'', JStr ''0.001'')])
       started_db))) = [1]
   \<and> to_Decimal example_lib (JStr ''100000000'') = Inr 100000000
   \<and> handle example_lib 2
       (POST_earnings [(''amount'', JStr ''100000000''),
                       (''new_period_total'', JStr ''100000000'')])
       started_db = ((500, Error (Unhandled_exception DataError)), started_db)"
  by (simp add: started_db_eq eval_defs eval_arith)

text \<open>
  C3, amended. On an active cycle, \<^verbatim>\<open>POST /api/earnings\<close> with an amount \<open>a\<close> and a new
  period total \<open>t\<close> that convert to finite decimals (and a timestamp that parses), \<open>s\<close>
  being the Decimal sum of \<^verbatim>\<open>cumulative_earnings\<close> and \<open>a\<close>:

  \<^item> when the store takes what the commit sends (\<open>add_earning_accepted\<close>: each value sent
    to a \<^verbatim>\<open>Numeric(10, 2)\<close> column is below \<open>10 ^ 8\<close> in magnitude once rounded to two
    places, and each counter sent is a 32-bit integer), the answer is 200; one
    \<^verbatim>\<open>Earning\<close> row is appended exactly when \<open>0 \<le> a\<close>, its amount being \<open>a\<close> rounded to two
    places, and the table is left as it was when \<open>a < 0\<close>; \<^verbatim>\<open>cumulative_earnings\<close> becomes
    \<open>s\<close> rounded to two places whatever the sign of \<open>a\<close>, and \<^verbatim>\<open>current_period_earnings\<close>
    is set to \<open>t\<close> rounded to two places; both race counters grow by 1 exactly when
    \<open>0 < a\<close>, the amount as sent; no other column of the cycle changes;
  \<^item> otherwise the answer is 500 and the store is as it was;
  \<^item> for amounts in cents the roundings change nothing: when \<^verbatim>\<open>cumulative_earnings\<close> and
    \<open>a\<close> have at most two digits after the point (and their sum is below \<open>10 ^ 26\<close> in
    magnitude), \<open>s\<close> is the exact sum and it and \<open>a\<close> are stored as they are, and so is
    \<open>t\<close> when it has at most two digits after the point.
\<close>

theorem add_earning_effect:
  assumes "get_active_cycle d = Some c"
    and "has_key data ''amount''" and "has_key data ''new_period_total''"
    and "to_Decimal L (get data ''amount'') = Inr a"
    and "to_Decimal L (get data ''new_period_total'') = Inr t"
    and "parse_timestamp L now data = Inr ts"
    and "Decimal_add (cumulative_earnings c) a = Inr s"
  shows "(if add_earning_accepted c a t s
     then fst (fst (add_earning L now data d)) = 200
       \<and> earnings (snd (add_earning L now data d)) =
           (if 0 \<le> a
            then earnings d @ [\<lparr>e_id = next_earning_id d, e_cycle_id = c_id c,
                                e_timestamp = ts, e_amount = round_cents a\<rparr>]
            else earnings d)
       \<and> get_active_cycle (snd (add_earning L now data d)) =
           Some (c\<lparr>current_period_earnings := round_cents t,
                   cumulative_earnings := round_cents s,
                   current_period_race_count :=
                     current_period_race_count c + (if 0 < a then 1 else 0),
                   cumulative_race_count :=
                     cumulative_race_count c + (if 0 < a then 1 else 0)\<rparr>)
     else add_earning L now data d = ((500, Error (Unhandled_exception DataError)), d))
    \<and> (two_places (cumulative_earnings c) \<and> two_places a
         \<and> \<bar>cumulative_earnings c + a\<bar> < 10 ^ 26 \<longrightarrow>
           s = cumulative_earnings c + a \<and> round_cents s = s \<and> round_cents a = a)
    \<and> (two_places t \<longrightarrow> round_cents t = t)"
proof (intro conjI impI)
  show "if add_earning_accepted c a t s
     then fst (fst (add_earning L now data d)) = 200
       \<and> earnings (snd (add_earning L now data d)) =
           (if 0 \<le> a
            then earnings d @ [\<lparr>e_id = next_earning_id d, e_cycle_id = c_id c,
                                e_timestamp = ts, e_amount = round_cents a\<rparr>]
            else earnings d)
       \<and> get_active_cycle (snd (add_earning L now data d)) =
           Some (c\<lparr>current_period_earnings := round_cents t,
                   cumulative_earnings := round_cents s,
                   current_period_race_count :=
                     current_period_race_count c + (if 0 < a then 1 else 0),
                   cumulative_race_count :=
                     cumulative_race_count c + (if 0 < a then 1 else 0)\<rparr>)
     else add_earning L now data d = ((500, Error (Unhandled_exception DataError)), d)"
  proof (cases "add_earning_accepted c a t s")
    case False
    then show ?thesis
      using assms has_key_nonempty[OF assms(2)]
      by (simp add: add_earning_def Decimal_value_def commit_fails_def)
  next
    case True
    let ?c' = "c\<lparr>current_period_earnings := round_cents t,
                  cumulative_earnings := round_cents s,
                  current_period_race_count :=
                    current_period_race_count c + (if 0 < a then 1 else 0),
                  cumulative_race_count :=
                    cumulative_race_count c + (if 0 < a then 1 else 0)\<rparr>"
    let ?d1 = "if a < 0 then d
               else insert_earning \<lparr>e_id = 0, e_cycle_id = c_id c,
                      e_timestamp = ts, e_amount = round_cents a\<rparr> d"
    have act: "is_active c" using assms(1) by (simp add: get_active_cycle_Some)
    have g1: "get_active_cycle ?d1 = Some c" using assms(1) by simp
    have g2: "get_active_cycle (update_cycle ?c' ?d1) = Some ?c'"
      by (rule get_active_update_cycle [OF g1]) (simp_all add: act)
    have run: "add_earning L now data d = get_app_state now (update_cycle ?c' ?d1)"
      using assms True has_key_nonempty[OF assms(2)]
      by (simp add: add_earning_def Decimal_value_def Let_def)
    have e1: "earnings ?d1 = (if 0 \<le> a
           then earnings d @ [\<lparr>e_id = next_earning_id d, e_cycle_id = c_id c,
                               e_timestamp = ts, e_amount = round_cents a\<rparr>]
           else earnings d)"
      by (auto simp: insert_earning_def)
    show ?thesis
      unfolding run get_app_state_active [OF g2]
      using g2 e1 True by simp
  qed
next
  assume cents: "two_places (cumulative_earnings c) \<and> two_places a
    \<and> \<bar>cumulative_earnings c + a\<bar> < 10 ^ 26"
  then have "Decimal_add (cumulative_earnings c) a = Inr (cumulative_earnings c + a)"
    by (simp add: Decimal_add_exact)
  with assms(7) show s: "s = cumulative_earnings c + a" by simp
  from cents have "two_places (cumulative_earnings c + a)" by (simp add: two_places_add)
  then show "round_cents s = s" unfolding s by (rule round_cents_exact)
  from cents show "round_cents a = a" by (simp add: round_cents_exact)
next
  assume "two_places t"
  then show "round_cents t = t" by (rule round_cents_exact)
qed

text \<open>The scenario of the specification: start with gas cost 50.00, then add 20.00.\<close>

theorem add_earning_effect_witness:
  "get_active_cycle (snd (add_earning example_lib 2
       [(''amount'', JStr ''20.00''), (''new_period_total'', JStr ''20.00'')] started_db)) =
     Some \<lparr>c_id = 1, gas_cost = 50, start_km = Some 1000, end_km = None,
         fuel_price_per_liter = None, is_active = True, start_time = 1,
         cumulative_earnings = 20, cumulative_race_count = 1,
         current_period_earnings = 20, current_period_race_count = 1\<rparr>
   \<and> earnings (snd (add_earning example_lib 2
       [(''amount'', JStr ''20.00''), (''new_period_total'', JStr ''20.00'')] started_db)) =
     [\<lparr>e_id = 1, e_cycle_id = 1, e_timestamp = 2, e_amount = 20\<rparr>]
   \<and> fst (fst (add_earning example_lib 2
       [(''amount'', JStr ''20.00''), (''new_period_total'', JStr ''20.00'')] started_db)) = 200"
proof -
  let ?data = "[(''amount'', JStr ''20.00''), (''new_period_total'', JStr ''20.00'')]"
  let ?c = "\<lparr>c_id = 1, gas_cost = 50, start_km = Some 1000, end_km = None,
         fuel_price_per_liter = None, is_active = True, start_time = 1,
         cumulative_earnings = 0, cumulative_race_count = 0,
         current_period_earnings = 0, current_period_race_count = 0\<rparr>"
  have h1: "get_active_cycle started_db = Some ?c"
    by (simp add: started_db_eq get_active_cycle_def)
  have h2: "has_key ?data ''amount''" and h3: "has_key ?data ''new_period_total''"
    by (simp_all add: has_key_def)
  have h4: "to_Decimal example_lib (get ?data ''amount'') = Inr 20"
    and h5: "to_Decimal example_lib (get ?data ''new_period_total'') = Inr 20"
    by (simp_all add: get_def get_default_def example_lib_def)
  have h6: "parse_timestamp example_lib 2 ?data = Inr 2"
    by (simp add: parse_timestamp_def)
  have h7: "Decimal_add (cumulative_earnings ?c) 20 = Inr 20"
    by (simp add: eval_arith)
  have acc: "add_earning_accepted ?c 20 20 20"
    by (simp add: add_earning_accepted_def fits_integer_def eval_arith)
  show ?thesis
    using add_earning_effect [OF h1 h2 h3 h4 h5 h6 h7] acc
    by (simp add: started_db_eq eval_arith)
qed

section \<open>Finalizing a cycle\<close>

text \<open>
  C6. On an active cycle whose \<^verbatim>\<open>start_km\<close> is set, \<^verbatim>\<open>POST /api/cycles/finalize\<close> with an
  \<^verbatim>\<open>end_km\<close> that converts to an integer below \<^verbatim>\<open>start_km\<close> answers 400 and returns the
  store as it was: no archive is created, and the cycle is still the active cycle with
  every column (also \<^verbatim>\<open>end_km\<close>) unchanged.
\<close>

theorem finalize_end_below_start:
  assumes "get_active_cycle d = Some c" and "start_km c = Some s"
    and "to_int L (get data ''end_km'') = Inr e" and "e < s"
  shows "finalize_cycle L now data d = ((400, Error (KM_final_menor_que_inicial e s)), d)
    \<and> archives (snd (finalize_cycle L now data d)) = archives d
    \<and> cycles (snd (finalize_cycle L now data d)) = cycles d
    \<and> get_active_cycle (snd (finalize_cycle L now data d)) = Some c"
proof -
  from assms(3) have "get data ''end_km'' \<noteq> JNull" by auto
  with assms
  have "finalize_cycle L now data d = ((400, Error (KM_final_menor_que_inicial e s)), d)"
    by (simp add: finalize_cycle_def Let_def end_below_start_def)
  then show ?thesis using assms(1) by simp
qed

text \<open>An instance: the cycle started at 1000 km, finalized with \<^verbatim>\<open>end_km = "900"\<close>.\<close>

theorem finalize_end_below_start_witness:
  "finalize_cycle example_lib 2 [(''end_km'', JStr ''900'')] started_db =
     ((400, Error (KM_final_menor_que_inicial 900 1000)), started_db)
   \<and> archives (snd (finalize_cycle example_lib 2 [(''end_km'', JStr ''900'')] started_db)) = []
   \<and> map is_active
       (cycles (snd (finalize_cycle example_lib 2 [(''end_km'', JStr ''900'')] started_db))) =
       [True]
   \<and> map end_km
       (cycles (snd (finalize_cycle example_lib 2 [(''end_km'', JStr ''900'')] started_db))) =
       [None]"
proof -
  let ?c = "\<lparr>c_id = 1, gas_cost = 50, start_km = Some 1000, end_km = None,
         fuel_price_per_liter = None, is_active = True, start_time = 1,
         cumulative_earnings = 0, cumulative_race_count = 0,
         current_period_earnings = 0, current_period_race_count = 0\<rparr>"
  have h1: "get_active_cycle started_db = Some ?c"
    by (simp add: started_db_eq get_active_cycle_def)
  have h2: "start_km ?c = Some 1000" by simp
  have h3: "to_int example_lib (get [(''end_km'', JStr ''900'')] ''end_km'') = Inr 900"
    by (simp add: get_def get_default_def example_lib_def)
  have h4: "(900::int) < 1000" by simp
  show ?thesis
    using finalize_end_below_start [OF h1 h2 h3 h4, where now = 2]
    by (simp add: started_db_eq)
qed

text \<open>
  The two ways in which \<^verbatim>\<open>finalize_cycle\<close> treats \<^verbatim>\<open>end_km\<close>. When it is absent or null,
  the cycle's \<^verbatim>\<open>start_km\<close> is used and the request succeeds: status 200, one new archive of
  type \<^verbatim>\<open>Ciclo Completo\<close> built from the cycle with that \<^verbatim>\<open>end_km\<close>, and the cycle stored
  inactive with that \<^verbatim>\<open>end_km\<close>. When it is present and \<^verbatim>\<open>int(...)\<close> raises, nothing is
  written: the answer is 400 for the two exceptions that the \<^verbatim>\<open>except\<close> clause names and
  500 for any other.
\<close>

lemma finalize_absent_end_km:
  assumes "get_active_cycle d = Some c" and "get data ''end_km'' = JNull"
  shows "fst (fst (finalize_cycle L now data d)) = 200
       \<and> archives (snd (finalize_cycle L now data d)) =
           archives d @
           [\<lparr>a_id = next_archive_id d,
             archive_data = Ciclo_Completo
               (full_archive_payload now (get_default data ''note'' (JStr []))
                  (c\<lparr>end_km := start_km c\<rparr>) (cycle_earnings d c) (cycle_expenses d c)),
             archive_date = now\<rparr>]
       \<and> c\<lparr>end_km := start_km c, is_active := False\<rparr>
           \<in> set (cycles (snd (finalize_cycle L now data d)))"
proof -
  have mem: "c \<in> set (cycles d)" using assms(1) by (simp add: get_active_cycle_Some)
  have nb: "\<not> end_below_start (start_km c) (start_km c)"
    by (simp add: end_below_start_def split: option.splits)
  let ?c' = "c\<lparr>end_km := start_km c, is_active := False\<rparr>"
  have "?c' \<in> set (cycles (update_cycle ?c' d'))" if "cycles d' = cycles d" for d'
    using mem that by (force simp: update_cycle_def)
  then have in2: "?c' \<in> set (cycles (snd (get_app_state now (update_cycle ?c' d'))))"
    if "cycles d' = cycles d" for d'
    using that by (simp add: get_app_state_cycles split: option.splits)
  have run: "finalize_cycle L now data d =
    get_app_state now (update_cycle ?c'
      (insert_archive \<lparr>a_id = 0, archive_data = Ciclo_Completo
         (full_archive_payload now (get_default data ''note'' (JStr []))
            (c\<lparr>end_km := start_km c\<rparr>) (cycle_earnings d c) (cycle_expenses d c)),
         archive_date = now\<rparr> d))"
    using assms nb
    by (simp add: finalize_cycle_def Let_def cycle_earnings_def cycle_expenses_def)
  have "fst (fst (finalize_cycle L now data d)) = 200" unfolding run by simp
  moreover have "archives (snd (finalize_cycle L now data d)) =
             archives d @
             [\<lparr>a_id = next_archive_id d,
               archive_data = Ciclo_Completo
                 (full_archive_payload now (get_default data ''note'' (JStr []))
                    (c\<lparr>end_km := start_km c\<rparr>) (cycle_earnings d c) (cycle_expenses d c)),
               archive_date = now\<rparr>]"
    unfolding run by (simp add: insert_archive_def)
  moreover have "?c' \<in> set (cycles (snd (finalize_cycle L now data d)))"
    unfolding run by (rule in2) simp
  ultimately show ?thesis by simp
qed

lemma finalize_unconvertible_end_km:
  assumes "get_active_cycle d = Some c"
    and "get data ''end_km'' \<noteq> JNull" and "to_int L (get data ''end_km'') = Inl x"
  shows "finalize_cycle L now data d =
    ((if x = ValueError \<or> x = TypeError then (400, Error Valor_invalido_para_KM_final)
      else (500, Error (Unhandled_exception x))), d)"
  using assms by (simp add: finalize_cycle_def Let_def)

text \<open>
  C7. The specification, and the comment on the line that converts \<^verbatim>\<open>end_km\<close>
  (\<^verbatim>\<open>Default to start_km if invalid/missing\<close>), want an \<^verbatim>\<open>end_km\<close> that cannot be converted to
  fall back to \<^verbatim>\<open>start_km\<close>. The code falls back only when \<^verbatim>\<open>end_km\<close> is absent or null. On
  the cycle started at 1000 km:
  \<^item> \<^verbatim>\<open>end_km = "abc"\<close> is answered with 400 and the store is as it was (no archive, the
    cycle still active);
  \<^item> \<^verbatim>\<open>end_km = 1e999\<close>, which \<^verbatim>\<open>json\<close> reads as the float infinity, raises
    \<^verbatim>\<open>OverflowError\<close> in \<^verbatim>\<open>int(...)\<close>, which the \<^verbatim>\<open>except\<close> clause does not name: status 500,
    the store as it was;
  \<^item> without \<^verbatim>\<open>end_km\<close> the request succeeds and the archive has \<^verbatim>\<open>endKM = 1000\<close>.
\<close>

theorem finalize_invalid_end_km_rejected:
  "handle example_lib 2 (POST_cycles_finalize [(''end_km'', JStr ''abc'')]) started_db =
     ((400, Error Valor_invalido_para_KM_final), started_db)
   \<and> handle example_lib 2 (POST_cycles_finalize [(''end_km'', JNonFinite PosInf)]) started_db =
     ((500, Error (Unhandled_exception OverflowError)), started_db)
   \<and> archives started_db = []
   \<and> map is_active (cycles started_db) = [True]
   \<and> fst (fst (handle example_lib 2 (POST_cycles_finalize []) started_db)) = 200
   \<and> map (endKM \<circ> (\<lambda>a. case archive_data a of Ciclo_Completo p \<Rightarrow> p))
       (archives (snd (handle example_lib 2 (POST_cycles_finalize []) started_db))) =
       [Some 1000]
   \<and> map (\<lambda>c. (c_id c, is_active c, end_km c))
       (cycles (snd (handle example_lib 2 (POST_cycles_finalize []) started_db))) =
       [(1, False, Some 1000), (2, False, None)]"
  by (simp add: started_db_eq eval_defs)

section \<open>Starting a cycle with the number 0\<close>







section \<open>Values the handlers let through\<close>

text \<open>
  C8. \<^verbatim>\<open>update_cycle_fields\<close> assigns \<^verbatim>\<open>Decimal(data['gas_cost'])\<close> without looking at its
  sign: on the started cycle, \<^verbatim>\<open>PUT /api/cycles/current\<close> with \<^verbatim>\<open>gas_cost = -5\<close> answers
  200 and stores \<^verbatim>\<open>gas_cost = -5\<close>. \<^verbatim>\<open>start_cycle\<close> rejects the same value with 400.
\<close>

theorem update_fields_negative_gas_cost:
  "fst (fst (handle example_lib 2 (PUT_cycles_current [(''gas_cost'', JInt (- 5))])
       started_db)) = 200
   \<and> map gas_cost (cycles (snd (handle example_lib 2
       (PUT_cycles_current [(''gas_cost'', JInt (- 5))]) started_db))) = [- 5]
   \<and> fst (handle example_lib 2 (POST_cycles_start [(''gas_cost'', JInt (- 5))]) started_db) =
       (400, Error Custo_da_gasolina_deve_ser_positivo)"
  by (simp add: started_db_eq eval_defs)

text \<open>
  C2. \<^verbatim>\<open>add_earning\<close> adds a negative amount to \<^verbatim>\<open>cumulative_earnings\<close> and assigns the
  submitted period total without a floor: on the started cycle (all totals zero),
  \<^verbatim>\<open>POST /api/earnings\<close> with \<^verbatim>\<open>amount = -5\<close> and \<^verbatim>\<open>new_period_total = -5\<close> answers 200
  and leaves \<^verbatim>\<open>cumulative_earnings = -5\<close> and \<^verbatim>\<open>current_period_earnings = -5\<close>.
\<close>

theorem add_earning_negative_totals:
  "fst (fst (handle example_lib 2
       (POST_earnings [(''amount'', JInt (- 5)), (''new_period_total'', JInt (- 5))])
       started_db)) = 200
   \<and> map cumulative_earnings (cycles (snd (handle example_lib 2
       (POST_earnings [(''amount'', JInt (- 5)), (''new_period_total'', JInt (- 5))])
       started_db))) = [- 5]
   \<and> map current_period_earnings (cycles (snd (handle example_lib 2
       (POST_earnings [(''amount'', JInt (- 5)), (''new_period_total'', JInt (- 5))])
       started_db))) = [- 5]"
  by (simp add: started_db_eq eval_defs eval_arith)

section \<open>Archiving the current period\<close>







section \<open>What does hold of the totals and of the repeated call\<close>

text \<open>
  The race counters are only incremented (\<^verbatim>\<open>add_earning\<close>), decremented and clamped at 0
  (\<^verbatim>\<open>delete_earning\<close>) or reset to 0 (\<^verbatim>\<open>archive_period\<close>, new cycles), so no request makes
  one negative.
\<close>

lemma race_counts_ok_cong:
  "cycles d' = cycles d \<Longrightarrow> race_counts_ok d' = race_counts_ok d"
  by (simp add: race_counts_ok_def)

lemma race_counts_ok_other_tables [simp]:
  "race_counts_ok (insert_earning e d) = race_counts_ok d"
  "race_counts_ok (insert_expense x d) = race_counts_ok d"
  "race_counts_ok (insert_archive a d) = race_counts_ok d"
  "race_counts_ok (update_earning e d) = race_counts_ok d"
  "race_counts_ok (d\<lparr>earnings := es\<rparr>) = race_counts_ok d"
  "race_counts_ok (d\<lparr>expenses := xs\<rparr>) = race_counts_ok d"
  "race_counts_ok (d\<lparr>archives := as\<rparr>) = race_counts_ok d"
  by (rule race_counts_ok_cong; simp)+

lemma race_counts_ok_insert:
  "race_counts_ok d \<Longrightarrow> counters_ok c \<Longrightarrow> race_counts_ok (snd (insert_cycle c d))"
  by (simp add: race_counts_ok_def insert_cycle_def Let_def counters_ok_def)

lemma race_counts_ok_update:
  "race_counts_ok d \<Longrightarrow> counters_ok c \<Longrightarrow> race_counts_ok (update_cycle c d)"
  by (auto simp: race_counts_ok_def update_cycle_def list_all_iff)

lemma active_counters_ok:
  "race_counts_ok d \<Longrightarrow> get_active_cycle d = Some c \<Longrightarrow> counters_ok c"
  by (auto simp: race_counts_ok_def list_all_iff dest: get_active_cycle_Some)

lemma race_counts_ok_get_app_state:
  "race_counts_ok d \<Longrightarrow> race_counts_ok (snd (get_app_state now d))"
  by (simp add: snd_get_app_state get_or_create_active_cycle_def race_counts_ok_insert
      default_cycle_def counters_ok_def split: option.splits)

lemma counters_ok_fields [simp]:
  "counters_ok (c\<lparr>gas_cost := g\<rparr>) = counters_ok c"
  "counters_ok (c\<lparr>fuel_price_per_liter := f\<rparr>) = counters_ok c"
  "counters_ok (c\<lparr>start_km := s\<rparr>) = counters_ok c"
  "counters_ok (c\<lparr>end_km := e\<rparr>) = counters_ok c"
  "counters_ok (c\<lparr>is_active := b\<rparr>) = counters_ok c"
  "counters_ok (c\<lparr>cumulative_earnings := x\<rparr>) = counters_ok c"
  "counters_ok (c\<lparr>current_period_earnings := y\<rparr>) = counters_ok c"
  by (simp_all add: counters_ok_def)

lemma upd_steps_counters:
  "upd_gas_cost L data cu = Inr cu' \<Longrightarrow> counters_ok (fst cu') = counters_ok (fst cu)"
  "upd_fuel_price L data cu = Inr cu' \<Longrightarrow> counters_ok (fst cu') = counters_ok (fst cu)"
  "upd_start_km L data cu = Inr cu' \<Longrightarrow> counters_ok (fst cu') = counters_ok (fst cu)"
  "upd_end_km L data cu = Inr cu' \<Longrightarrow> counters_ok (fst cu') = counters_ok (fst cu)"
  by (auto simp: upd_gas_cost_def upd_fuel_price_def upd_start_km_def upd_end_km_def
      split: sum.splits if_splits option.splits no_number.splits)

lemma apply_fields_counters:
  assumes "apply_fields L data c = Inr (a, b)"
  shows "counters_ok a = counters_ok c"
proof -
  from assms obtain x3 where 3: "upd_end_km L data x3 = Inr (a, b)"
    and r3: "and_then (and_then (upd_gas_cost L data (c, False, False)) (upd_fuel_price L data))
               (upd_start_km L data) = Inr x3"
    unfolding apply_fields_def by (blast dest: and_then_Inr)
  from r3 obtain x2 where 2: "upd_start_km L data x2 = Inr x3"
    and r2: "and_then (upd_gas_cost L data (c, False, False)) (upd_fuel_price L data) = Inr x2"
    by (blast dest: and_then_Inr)
  from r2 obtain x1 where 1: "upd_fuel_price L data x1 = Inr x2"
    and r1: "upd_gas_cost L data (c, False, False) = Inr x1"
    by (blast dest: and_then_Inr)
  from upd_steps_counters(1)[OF r1] upd_steps_counters(2)[OF 1] upd_steps_counters(3)[OF 2]
    upd_steps_counters(4)[OF 3]
  show ?thesis by simp
qed

lemma race_counts_ok_handle:
  assumes "race_counts_ok d"
  shows "race_counts_ok (snd (handle L now r d))"
proof (cases r)
  case GET_state
  then show ?thesis using assms by (simp add: race_counts_ok_get_app_state)
next
  case (POST_cycles_start data)
  have "race_counts_ok (case get_active_cycle d of
             Some existing_active \<Rightarrow> update_cycle (existing_active\<lparr>is_active := False\<rparr>) d
           | None \<Rightarrow> d)"
    using assms by (auto simp: race_counts_ok_update active_counters_ok split: option.splits)
  then show ?thesis using assms POST_cycles_start
    by (auto simp: start_cycle_def Let_def split_beta race_counts_ok_insert counters_ok_def
        split: sum.splits no_number.splits nonfinite.splits)
next
  case (POST_cycles_finalize data)
  then show ?thesis using assms
    by (auto simp: finalize_cycle_def Let_def active_counters_ok split: option.splits sum.splits
        intro!: race_counts_ok_get_app_state race_counts_ok_update)
next
  case (PUT_cycles_current data)
  then show ?thesis using assms
    by (auto simp: update_cycle_fields_def Let_def active_counters_ok apply_fields_counters
        split: option.splits sum.splits
        intro!: race_counts_ok_get_app_state race_counts_ok_update)
next
  case (POST_earnings data)
  from assms
  have "0 \<le> cumulative_race_count c \<and> 0 \<le> current_period_race_count c"
    if "get_active_cycle d = Some c" for c
    using that by (auto dest: active_counters_ok simp: counters_ok_def)
  then show ?thesis using assms POST_earnings
    by (auto simp: add_earning_def Let_def counters_ok_def
        split: option.splits sum.splits nonfinite.splits
        intro!: race_counts_ok_get_app_state race_counts_ok_update)
next
  case (PUT_earnings i data)
  then show ?thesis using assms
    by (auto simp: edit_earning_def Let_def active_counters_ok
        split: option.splits sum.splits no_number.splits nonfinite.splits
        intro!: race_counts_ok_get_app_state race_counts_ok_update)
next
  case (DELETE_earnings i)
  then show ?thesis using assms
    by (auto simp: delete_earning_def Let_def counters_ok_def
        split: option.splits sum.splits
        intro!: race_counts_ok_get_app_state race_counts_ok_update)
next
  case (POST_expenses data)
  then show ?thesis using assms
    by (auto simp: add_expense_def Let_def split_beta
        split: option.splits sum.splits no_number.splits nonfinite.splits
        intro!: race_counts_ok_get_app_state)
next
  case (DELETE_expenses i)
  then show ?thesis using assms
    by (auto simp: delete_expense_def Let_def split: option.splits
        intro!: race_counts_ok_get_app_state)
next
  case GET_archives
  then show ?thesis using assms by (simp add: get_archives_def)
next
  case (POST_archives_period data)
  then show ?thesis using assms
    by (auto simp: archive_period_def Let_def counters_ok_def split: option.splits
        intro!: race_counts_ok_get_app_state race_counts_ok_update)
next
  case (DELETE_archives i)
  then show ?thesis using assms
    by (auto simp: delete_archive_def Let_def split: option.splits)
next
  case POST_reset
  have "race_counts_ok (d\<lparr>earnings := [], expenses := [], archives := [], cycles := []\<rparr>)"
    by (simp add: race_counts_ok_def)
  then show ?thesis using POST_reset
    by (simp add: reset_database_def Let_def split_beta get_or_create_active_cycle_def
        race_counts_ok_insert default_cycle_def counters_ok_def get_active_cycle_def)
qed

lemma race_counts_ok_run:
  "race_counts_ok d \<Longrightarrow> race_counts_ok (run L rs d)"
  by (induction rs arbitrary: d) (simp_all add: race_counts_ok_handle)

text \<open>After any sequence of requests from the empty store, no race counter is negative.\<close>

lemma race_counts_never_negative:
  "list_all (\<lambda>c. 0 \<le> cumulative_race_count c \<and> 0 \<le> current_period_race_count c)
     (cycles (run L rs empty_db))"
proof -
  have "race_counts_ok (run L rs empty_db)"
    by (rule race_counts_ok_run) (simp add: race_counts_ok_def empty_db_def)
  then show ?thesis by (simp add: race_counts_ok_def counters_ok_def list_all_iff)
qed

text \<open>
  With an active cycle in the store, \<^verbatim>\<open>get_or_create_active_cycle\<close> called twice returns
  that cycle both times.
\<close>

lemma get_or_create_same_when_active:
  "get_active_cycle d = Some c \<Longrightarrow>
   fst (get_or_create_active_cycle t2 (snd (get_or_create_active_cycle t1 d))) =
   fst (get_or_create_active_cycle t1 d)"
  by (simp add: get_or_create_active)

end
